theory Spec2Isabelle
  imports Complex_Main
begin

section \<open>The set importer of the damage calculator (import/src/set-import.ts)\<close>

text \<open>
  A shallow embedding of \<^verbatim>\<open>set-import.ts\<close>. JavaScript numbers that hold counts, levels and
  stat values are integers here; usage weights and thresholds are reals, with the one
  infinite threshold as a constructor of its own. An object whose keys are enumerated
  (\<^verbatim>\<open>for ... in\<close>, \<^verbatim>\<open>Object.entries\<close>) is an association list in enumeration order. A thrown
  \<^verbatim>\<open>TypeError\<close> is a value of type \<open>error\<close>.
\<close>

subsection \<open>Strings\<close>

fun startsWith :: "string \<Rightarrow> string \<Rightarrow> bool" where
  "startsWith s p = (take (length p) s = p)"

text \<open>\<^verbatim>\<open>s.includes(p)\<close>: \<open>p\<close> occurs in \<open>s\<close> as a contiguous substring.\<close>

fun str_includes :: "string \<Rightarrow> string \<Rightarrow> bool" where
  "str_includes [] p = (p = [])"
| "str_includes (c # s) p = (startsWith (c # s) p \<or> str_includes s p)"

text \<open>
  \<^verbatim>\<open>indexOf\<close> of an array for an element, and of a string for a one-character needle: the
  first position, \<open>-1\<close> when there is none.
\<close>

fun indexOf_from :: "int \<Rightarrow> 'a list \<Rightarrow> 'a \<Rightarrow> int" where
  "indexOf_from i [] c = - 1"
| "indexOf_from i (d # s) c = (if d = c then i else indexOf_from (i + 1) s c)"

definition indexOf :: "'a list \<Rightarrow> 'a \<Rightarrow> int" where
  "indexOf s c = indexOf_from 0 s c"

text \<open>\<^verbatim>\<open>s.slice(i)\<close> for \<open>i \<ge> 0\<close>.\<close>

definition slice_from :: "string \<Rightarrow> int \<Rightarrow> string" where
  "slice_from s i = drop (nat i) s"

subsection \<open>Data\<close>

datatype StatID = HP | ATK | DEF | SPA | SPD | SPE

text \<open>
  \<^verbatim>\<open>StatsTable\<close> is \<open>int StatsTable\<close>; \<^verbatim>\<open>Partial<StatsTable>\<close> is \<open>int option StatsTable\<close>,
  \<open>None\<close> for a key that is absent.
\<close>

record 'a StatsTable =
  hp :: 'a
  atk :: 'a
  "def" :: 'a
  spa :: 'a
  spd :: 'a
  spe :: 'a

text \<open>
  \<^verbatim>\<open>CalcStatsTable\<close>, with the keys \<^verbatim>\<open>hp at df sa sd sp\<close> prefixed by \<open>c_\<close> (the names
  \<open>hp\<close> and \<open>at\<close> are taken).
\<close>

record 'a CalcStatsTable =
  c_hp :: 'a
  c_at :: 'a
  c_df :: 'a
  c_sa :: 'a
  c_sd :: 'a
  c_sp :: 'a

fun stat_get :: "'a StatsTable \<Rightarrow> StatID \<Rightarrow> 'a" where
  "stat_get t HP = hp t"
| "stat_get t ATK = atk t"
| "stat_get t DEF = def t"
| "stat_get t SPA = spa t"
| "stat_get t SPD = spd t"
| "stat_get t SPE = spe t"

fun stat_set :: "'a StatsTable \<Rightarrow> StatID \<Rightarrow> 'a \<Rightarrow> 'a StatsTable" where
  "stat_set t HP v = t\<lparr>hp := v\<rparr>"
| "stat_set t ATK v = t\<lparr>atk := v\<rparr>"
| "stat_set t DEF v = t\<lparr>def := v\<rparr>"
| "stat_set t SPA v = t\<lparr>spa := v\<rparr>"
| "stat_set t SPD v = t\<lparr>spd := v\<rparr>"
| "stat_set t SPE v = t\<lparr>spe := v\<rparr>"

definition stat_ids :: "StatID list" where
  "stat_ids = [HP, ATK, DEF, SPA, SPD, SPE]"

text \<open>The keys a partial table has, as \<^verbatim>\<open>for (stat in stats)\<close> visits them.\<close>

definition stat_keys :: "'a option StatsTable \<Rightarrow> StatID list" where
  "stat_keys stats = filter (\<lambda>k. stat_get stats k \<noteq> None) stat_ids"

definition no_stats :: "int option StatsTable" where
  "no_stats = \<lparr>hp = None, atk = None, def = None, spa = None, spd = None, spe = None\<rparr>"

definition as_partial :: "int StatsTable \<Rightarrow> int option StatsTable" where
  "as_partial t = \<lparr>hp = Some (hp t), atk = Some (atk t), def = Some (def t),
                   spa = Some (spa t), spd = Some (spd t), spe = Some (spe t)\<rparr>"

subsection \<open>\<^verbatim>\<open>first\<close>\<close>

text \<open>A curated field is a single value or an array of alternatives.\<close>

datatype 'a alt = Single 'a | Alternatives "'a list"

text \<open>
  \<^verbatim>\<open>first(v)\<close>, with \<open>None\<close> for \<^verbatim>\<open>undefined\<close>: an absent field stays absent, and the
  first element of an empty array is \<^verbatim>\<open>undefined\<close>.
\<close>

fun first :: "'a alt option \<Rightarrow> 'a option" where
  "first None = None"
| "first (Some (Single v)) = Some v"
| "first (Some (Alternatives [])) = None"
| "first (Some (Alternatives (v # vs))) = Some v"

subsection \<open>\<^verbatim>\<open>top\<close>\<close>

text \<open>
  \<^verbatim>\<open>top\<close> is \<open>top_weighted\<close> here, \<open>top\<close> being the greatest element of an order in HOL.
  Its result is \<^verbatim>\<open>undefined\<close>, one key (\<open>n = 1\<close>) or an array of keys.
\<close>

datatype top_result = Undefined | Key string | Keys "string list"

text \<open>\<^verbatim>\<open>weighted[k]\<close> on the object whose entries are \<open>weighted\<close>.\<close>

definition weight_of :: "(string \<times> real) list \<Rightarrow> string \<Rightarrow> real option" where
  "weight_of weighted k = map_of weighted k"

text \<open>\<^verbatim>\<open>!max\<close>: true of \<^verbatim>\<open>undefined\<close> and of the empty string.\<close>

definition not_max :: "string option \<Rightarrow> bool" where
  "not_max m = (case m of None \<Rightarrow> True | Some k \<Rightarrow> k = [])"

text \<open>\<^verbatim>\<open>weighted[max] < weighted[key]\<close>; a comparison with \<^verbatim>\<open>undefined\<close> is false.\<close>

definition weight_less :: "(string \<times> real) list \<Rightarrow> string option \<Rightarrow> string \<Rightarrow> bool" where
  "weight_less weighted m key =
     (case m of None \<Rightarrow> False
      | Some k \<Rightarrow> (case (weight_of weighted k, weight_of weighted key) of
                    (Some a, Some b) \<Rightarrow> a < b
                  | _ \<Rightarrow> False))"

text \<open>The loop of the \<open>n = 1\<close> case over the keys still to visit.\<close>

fun top_loop :: "(string \<times> real) list \<Rightarrow> string list \<Rightarrow> string option \<Rightarrow> string option" where
  "top_loop weighted [] m = m"
| "top_loop weighted (key # keys) m =
     top_loop weighted keys
       (if not_max m \<or> weight_less weighted m key then Some key else m)"

text \<open>
  \<^verbatim>\<open>Object.entries(weighted).sort((a, b) => b[1] - a[1])\<close>: the sort is stable, so it is
  the insertion sort on the negated weight.
\<close>

definition sort_desc :: "(string \<times> real) list \<Rightarrow> (string \<times> real) list" where
  "sort_desc entries = sort_key (\<lambda>e. - snd e) entries"

definition top_weighted :: "(string \<times> real) list \<Rightarrow> nat \<Rightarrow> top_result" where
  "top_weighted weighted n =
     (if n = 0 then Undefined
      else if n = 1 then
        (case top_loop weighted (map fst weighted) None of
           None \<Rightarrow> Undefined
         | Some k \<Rightarrow> Key k)
      else Keys (map fst (take n (sort_desc weighted))))"

subsection \<open>\<^verbatim>\<open>toCalcStatsTable\<close>\<close>

definition no_calc_stats :: "int option CalcStatsTable" where
  "no_calc_stats = \<lparr>c_hp = None, c_at = None, c_df = None, c_sa = None, c_sd = None, c_sp = None\<rparr>"

text \<open>One round of the loop body for the key \<open>stat\<close>.\<close>

definition calc_stat_step ::
  "int option StatsTable \<Rightarrow> int \<Rightarrow> StatID \<Rightarrow> int option CalcStatsTable \<Rightarrow> int option CalcStatsTable"
where
  "calc_stat_step stats ignoreVal stat calcStatsTable =
     (if stat_get stats stat = Some ignoreVal then calcStatsTable
      else if stat = HP then calcStatsTable\<lparr>c_hp := stat_get stats stat\<rparr>
      else if stat = ATK then calcStatsTable\<lparr>c_at := stat_get stats stat\<rparr>
      else if stat = DEF then calcStatsTable\<lparr>c_df := stat_get stats stat\<rparr>
      else if stat = SPA then calcStatsTable\<lparr>c_sa := stat_get stats stat\<rparr>
      else if stat = SPD then calcStatsTable\<lparr>c_sd := stat_get stats stat\<rparr>
      else if stat = SPE then calcStatsTable\<lparr>c_sp := stat_get stats stat\<rparr>
      else calcStatsTable)"

definition toCalcStatsTable :: "int option StatsTable \<Rightarrow> int \<Rightarrow> int option CalcStatsTable" where
  "toCalcStatsTable stats ignoreVal =
     fold (calc_stat_step stats ignoreVal) (stat_keys stats) no_calc_stats"

text \<open>
  The inverse the specification speaks of (``re-expanding with the same ignore value as
  fill''): every key the condensed table lacks gets the fill value. It follows the
  specification's words; the importer itself has no such function.
\<close>

definition expandCalcStatsTable :: "int option CalcStatsTable \<Rightarrow> int \<Rightarrow> int StatsTable" where
  "expandCalcStatsTable c fill =
     \<lparr>hp = (case c_hp c of None \<Rightarrow> fill | Some v \<Rightarrow> v),
      atk = (case c_at c of None \<Rightarrow> fill | Some v \<Rightarrow> v),
      def = (case c_df c of None \<Rightarrow> fill | Some v \<Rightarrow> v),
      spa = (case c_sa c of None \<Rightarrow> fill | Some v \<Rightarrow> v),
      spd = (case c_sd c of None \<Rightarrow> fill | Some v \<Rightarrow> v),
      spe = (case c_sp c of None \<Rightarrow> fill | Some v \<Rightarrow> v)\<rparr>"

subsection \<open>\<^verbatim>\<open>getUsageThreshold\<close>\<close>

datatype number = Finite real | Infinity

text \<open>\<^verbatim>\<open>w < t\<close> for a finite \<open>w\<close>.\<close>

fun less_number :: "real \<Rightarrow> number \<Rightarrow> bool" where
  "less_number w (Finite t) = (w < t)"
| "less_number w Infinity = True"

text \<open>\<^verbatim>\<open>/uber|anythinggoes|doublesou/.test(formatID)\<close>; the pattern has no flag.\<close>

definition lower_quality :: "string \<Rightarrow> bool" where
  "lower_quality formatID =
     (str_includes formatID ''uber'' \<or> str_includes formatID ''anythinggoes''
      \<or> str_includes formatID ''doublesou'')"

definition getUsageThreshold :: "string \<Rightarrow> int \<Rightarrow> number" where
  "getUsageThreshold formatID count =
     (if count < 100 then Infinity
      else if count < 400 then Finite (5 / 100)
      else if lower_quality formatID then Finite (3 / 100) else Finite (1 / 100))"

text \<open>
  Lower-casing of ASCII letters, to state what a case-insensitive match of the same
  pattern would be.
\<close>

definition lower_char :: "char \<Rightarrow> char" where
  "lower_char c =
     (case map_of (zip ''ABCDEFGHIJKLMNOPQRSTUVWXYZ'' ''abcdefghijklmnopqrstuvwxyz'') c of
        None \<Rightarrow> c
      | Some d \<Rightarrow> d)"

definition lower_quality_nocase :: "string \<Rightarrow> bool" where
  "lower_quality_nocase formatID = lower_quality (map lower_char formatID)"

subsection \<open>\<^verbatim>\<open>expectedHP\<close>\<close>

text \<open>
  Modelled from the spec: \<^verbatim>\<open>TeamValidator.fillStats\<close> belongs to the simulator library and
  is not part of this file. The specification has it fill every stat the given table
  lacks with the given value and keep the others; no table at all (\<^verbatim>\<open>null\<close>) is \<open>None\<close>.
\<close>

definition fillStats :: "int option StatsTable option \<Rightarrow> int \<Rightarrow> int StatsTable" where
  "fillStats stats fillNum =
     (case stats of
        None \<Rightarrow> \<lparr>hp = fillNum, atk = fillNum, def = fillNum,
                  spa = fillNum, spd = fillNum, spe = fillNum\<rparr>
      | Some t \<Rightarrow>
          \<lparr>hp = (case hp t of None \<Rightarrow> fillNum | Some v \<Rightarrow> v),
           atk = (case atk t of None \<Rightarrow> fillNum | Some v \<Rightarrow> v),
           def = (case def t of None \<Rightarrow> fillNum | Some v \<Rightarrow> v),
           spa = (case spa t of None \<Rightarrow> fillNum | Some v \<Rightarrow> v),
           spd = (case spd t of None \<Rightarrow> fillNum | Some v \<Rightarrow> v),
           spe = (case spe t of None \<Rightarrow> fillNum | Some v \<Rightarrow> v)\<rparr>)"

text \<open>
  The remainder \<^verbatim>\<open>a % b\<close> of JavaScript on integers: it has the sign of \<open>a\<close>.
\<close>

definition js_rem :: "int \<Rightarrow> int \<Rightarrow> int" where
  "js_rem a b = (if a < 0 then - ((- a) mod \<bar>b\<bar>) else a mod \<bar>b\<bar>)"

text \<open>\<^verbatim>\<open>Math.floor(v / 2)\<close> on an integer \<open>v\<close> is \<open>v div 2\<close>, which rounds down.\<close>

definition expectedHP :: "int option StatsTable \<Rightarrow> int" where
  "expectedHP ivs0 =
     (let ivs = fillStats (Some ivs0) 31;
          atkDV = atk ivs div 2;
          defDV = def ivs div 2;
          speDV = spe ivs div 2;
          spcDV = spa ivs div 2
      in 2 * (js_rem atkDV 2 * 8 + js_rem defDV 2 * 4 + js_rem speDV 2 * 2 + js_rem spcDV 2))"

subsection \<open>\<^verbatim>\<open>getLevel\<close>\<close>

definition getLevel :: "string \<Rightarrow> int" where
  "getLevel formatID =
     (if str_includes formatID ''lc'' then 5
      else if str_includes formatID ''vgc'' \<or> str_includes formatID ''battlestadium'' then 50
      else 100)"

subsection \<open>Records\<close>

datatype error = TypeError string

record PokemonSet =
  name :: string
  species :: string
  item :: string
  ability :: string
  moves :: "string option list"
  nature :: string
  gender :: string
  evs :: "int StatsTable"
  ivs :: "int StatsTable"
  level :: int
  teraType :: "string option"
  hpType :: "string option"
  shiny :: "bool option"

text \<open>\<^verbatim>\<open>DexSet\<close>, its keys prefixed by \<open>d_\<close>; an optional key that is absent is \<open>None\<close>.\<close>

record DexSet =
  d_moves :: "string alt list"
  d_level :: "int alt option"
  d_ability :: "string alt option"
  d_item :: "string alt option"
  d_nature :: "string alt option"
  d_teratypes :: "string alt option"
  d_evs :: "int option StatsTable alt option"
  d_ivs :: "int option StatsTable alt option"

text \<open>\<^verbatim>\<open>CalcSet\<close>, its keys prefixed by \<open>cs_\<close>.\<close>

record CalcSet =
  cs_moves :: "string option list"
  cs_level :: int
  cs_ability :: string
  cs_item :: string
  cs_nature :: string
  cs_teraType :: "string option"
  cs_evs :: "int option CalcStatsTable"
  cs_ivs :: "int option CalcStatsTable"

text \<open>
  What the importer reads of a species, an item and a format of the reference data:
  \<^verbatim>\<open>specie.name\<close>, \<^verbatim>\<open>specie.abilities[0]\<close>, \<^verbatim>\<open>specie.isMega\<close>, \<^verbatim>\<open>specie.baseSpecies\<close>;
  \<^verbatim>\<open>item.megaEvolves\<close>, \<^verbatim>\<open>item.megaStone\<close> (\<open>None\<close> for \<^verbatim>\<open>undefined\<close>);
  \<^verbatim>\<open>format.id\<close>, \<^verbatim>\<open>format.name\<close>, \<^verbatim>\<open>format.exists\<close>, \<^verbatim>\<open>format.banlist\<close>.
\<close>

record Specie =
  specie_name :: string
  abilities_0 :: string
  isMega :: bool
  baseSpecies :: string

record Item =
  megaEvolves :: "string option"
  megaStone :: "string option"

record Format =
  format_id :: string
  format_name :: string
  format_exists :: bool
  banlist :: "string list"

text \<open>
  \<^verbatim>\<open>LegacyDisplayUsageStatistics\<close>: the four weighted maps and \<^verbatim>\<open>usage.weighted\<close>; and
  \<^verbatim>\<open>DisplayStatistics\<close>: \<^verbatim>\<open>battles\<close> and the entries of \<^verbatim>\<open>pokemon\<close>.
\<close>

record LegacyDisplayUsageStatistics =
  u_spreads :: "(string \<times> real) list"
  u_items :: "(string \<times> real) list"
  u_abilities :: "(string \<times> real) list"
  u_moves :: "(string \<times> real) list"
  usage_weighted :: real

record DisplayStatistics =
  battles :: int
  pokemon :: "(string \<times> LegacyDisplayUsageStatistics) list"

text \<open>
  The validator of a format: \<^verbatim>\<open>validateSet\<close> is handed the record, may change it, and
  returns \<^verbatim>\<open>null\<close> (\<open>None\<close>) or the list of problems.
\<close>

type_synonym validator = "PokemonSet \<Rightarrow> PokemonSet \<times> string list option"

text \<open>
  The reference data are parameters. A \<^verbatim>\<open>Generation\<close> gives \<^verbatim>\<open>gen.num\<close>, \<^verbatim>\<open>gen.dex.gen\<close>,
  the lookups \<^verbatim>\<open>gen.species.get\<close> and \<^verbatim>\<open>gen.items.get\<close>, which answer \<^verbatim>\<open>undefined\<close>
  (\<open>None\<close>) for what the generation does not have, \<^verbatim>\<open>dex.getHiddenPower(ivs).type\<close>, and
  \<^verbatim>\<open>dex.types.get(type).HPdvs\<close> and \<^verbatim>\<open>.HPivs\<close>.
\<close>

record Generation =
  num :: nat
  dex_gen :: nat
  species_get :: "string \<Rightarrow> Specie option"
  items_get :: "string \<Rightarrow> Item option"
  getHiddenPower_type :: "int StatsTable \<Rightarrow> string"
  types_HPdvs :: "string \<Rightarrow> int option StatsTable"
  types_HPivs :: "string \<Rightarrow> int option StatsTable"

text \<open>
  The libraries of the module, as parameters: \<^verbatim>\<open>ModdedDex.forGen(n).species.get\<close>, whose
  result \<^verbatim>\<open>getSpecie\<close>, declared to return a species, hands on as it is;
  \<^verbatim>\<open>ModdedDex.forGen(n).items.get\<close>; \<^verbatim>\<open>Dex.formats.get\<close>, whose result carries \<^verbatim>\<open>exists\<close>;
  \<^verbatim>\<open>Dex.formats.getRuleTable(format).has\<close>; \<^verbatim>\<open>new TeamValidator(format)\<close>; and the built-in
  \<^verbatim>\<open>Number\<close> on the strings of a spread, which gives the number a string denotes, stat
  values being integers, or \<^verbatim>\<open>NaN\<close> (\<open>None\<close>). Nothing is fixed about which strings denote
  which numbers.
\<close>

text \<open>
  Modelled from the spec: the item lookup \<^verbatim>\<open>ModdedDex.forGen(n).items.get\<close> of the package
  \<^verbatim>\<open>@pkmn/dex\<close> is not among the sources. The specification gives the lookups of the
  reference database as \<^verbatim>\<open>lookupItem(name) -> Item | none\<close>, so the field
  \<open>ModdedDex_items_get\<close> answers an optional item, \<open>None\<close> for \<^verbatim>\<open>undefined\<close>.
\<close>

record Libraries =
  ModdedDex_species_get :: "nat \<Rightarrow> string \<Rightarrow> Specie"
  ModdedDex_items_get :: "nat \<Rightarrow> string \<Rightarrow> Item option"
  Dex_formats_get :: "string \<Rightarrow> Format"
  ruleTable_has :: "Format \<Rightarrow> string \<Rightarrow> bool"
  new_TeamValidator :: "Format \<Rightarrow> validator"
  Number :: "string \<Rightarrow> int option"

definition UNSUPPORTED :: "(string \<times> string) list" where
  "UNSUPPORTED = [(''gen9almostanyability'', ''[Gen 9] Almost Any Ability''),
                  (''gen9lc'', ''[Gen 9] LC'')]"

subsection \<open>\<^verbatim>\<open>fromSpread\<close>\<close>

text \<open>\<^verbatim>\<open>s.split(c)\<close> for a one-character separator.\<close>

fun split_on :: "char \<Rightarrow> string \<Rightarrow> string list" where
  "split_on c [] = [[]]"
| "split_on c (d # s) =
     (if d = c then [] # split_on c s
      else (case split_on c s of [] \<Rightarrow> [[d]] | w # ws \<Rightarrow> (d # w) # ws))"

definition is_digit :: "char \<Rightarrow> bool" where
  "is_digit c = (c \<in> set ''0123456789'')"

definition digit_val :: "char \<Rightarrow> nat" where
  "digit_val c =
     (case map_of (zip ''0123456789'' [0, 1, 2, 3, 4, 5, 6, 7, 8, 9]) c of
        None \<Rightarrow> 0
      | Some d \<Rightarrow> d)"

definition nat_of_digits :: "string \<Rightarrow> nat" where
  "nat_of_digits s = foldl (\<lambda>n c. 10 * n + digit_val c) 0 s"

text \<open>
  One round of the loop of \<^verbatim>\<open>fromSpread\<close>: \<^verbatim>\<open>const ev = Number(rev); if (ev) ...\<close>, where
  \<^verbatim>\<open>NaN\<close> and 0 are falsy. \<^verbatim>\<open>Dex.stats.ids()\<close> is \<open>stat_ids\<close>, and an index past its end
  names no stat.
\<close>

definition spread_step ::
  "Libraries \<Rightarrow> nat \<times> string \<Rightarrow> int option StatsTable \<Rightarrow> int option StatsTable"
where
  "spread_step lib e evs0 =
     (case Number lib (snd e) of
        None \<Rightarrow> evs0
      | Some ev \<Rightarrow>
          if ev \<noteq> 0 \<and> fst e < length stat_ids
          then stat_set evs0 (stat_ids ! fst e) (Some ev) else evs0)"

text \<open>A spread without \<open>:\<close> leaves \<^verbatim>\<open>revs\<close> undefined, and \<^verbatim>\<open>revs.split\<close> throws.\<close>

definition fromSpread :: "Libraries \<Rightarrow> string \<Rightarrow> error + string \<times> int option StatsTable" where
  "fromSpread lib spread =
     (case split_on CHR '':'' spread of
        nature0 # revs # rest \<Rightarrow>
          Inr (nature0,
               fold (spread_step lib) (enumerate 0 (split_on CHR ''/'' revs)) no_stats)
      | _ \<Rightarrow> Inl (TypeError ''revs.split''))"

subsection \<open>The Hidden Power block of \<^verbatim>\<open>dexToPset\<close> and \<^verbatim>\<open>usageToPset\<close>\<close>

text \<open>\<^verbatim>\<open>for (stat in dvs) dvs[stat] *= 2\<close>.\<close>

definition double_dvs :: "int option StatsTable \<Rightarrow> int option StatsTable" where
  "double_dvs dvs =
     fold (\<lambda>stat t. stat_set t stat (map_option (\<lambda>v. v * 2) (stat_get t stat)))
       (stat_keys dvs) dvs"

text \<open>\<^verbatim>\<open>Object.assign(target, source)\<close> on stat tables.\<close>

definition assign_stats :: "int StatsTable \<Rightarrow> int option StatsTable \<Rightarrow> int StatsTable" where
  "assign_stats target source =
     fold (\<lambda>stat t. case stat_get source stat of None \<Rightarrow> t | Some v \<Rightarrow> stat_set t stat v)
       (stat_keys source) target"

text \<open>
  \<^verbatim>\<open>moves.find(m => m.startsWith('Hidden Power'))\<close>. A move of the list may be
  \<^verbatim>\<open>undefined\<close> (\<open>None\<close>); the search visits the moves in order and stops at the first
  match, and \<^verbatim>\<open>m.startsWith\<close> throws on an \<^verbatim>\<open>undefined\<close> move it visits.
\<close>

fun find_hp :: "string option list \<Rightarrow> error + string option" where
  "find_hp [] = Inr None"
| "find_hp (None # ms) = Inl (TypeError ''m.startsWith'')"
| "find_hp (Some m # ms) = (if startsWith m ''Hidden Power'' then Inr (Some m) else find_hp ms)"

text \<open>
  Both builders end with the same lines, from the search for a Hidden Power move to the
  return; they are this function.
\<close>

definition hiddenPower :: "Generation \<Rightarrow> PokemonSet \<Rightarrow> error + PokemonSet" where
  "hiddenPower gen pset =
     (case find_hp (moves pset) of
        Inl e \<Rightarrow> Inl e
      | Inr None \<Rightarrow> Inr pset
      | Inr (Some hp_move) \<Rightarrow>
          (let type_name = slice_from hp_move 13 in
           if type_name \<noteq> [] \<and> getHiddenPower_type gen (ivs pset) \<noteq> type_name then
             (if dex_gen gen \<ge> 7 \<and> level pset = 100
              then Inr (pset\<lparr>hpType := Some type_name\<rparr>)
              else if dex_gen gen = 2 then
                (let dvs = double_dvs (types_HPdvs gen type_name);
                     ivs1 = assign_stats (ivs pset) dvs
                 in Inr (pset\<lparr>ivs := ivs1\<lparr>hp := expectedHP (as_partial ivs1)\<rparr>\<rparr>))
              else Inr (pset\<lparr>ivs := assign_stats (ivs pset) (types_HPivs gen type_name)\<rparr>))
           else Inr pset))"

subsection \<open>\<^verbatim>\<open>getSpecie\<close>, \<^verbatim>\<open>dexToPset\<close>, \<^verbatim>\<open>usageToPset\<close>, \<^verbatim>\<open>psetToCalcSet\<close>\<close>

definition getSpecie :: "Libraries \<Rightarrow> Generation \<Rightarrow> string \<Rightarrow> Specie" where
  "getSpecie lib gen specieName =
     (case species_get gen specieName of
        Some s \<Rightarrow> s
      | None \<Rightarrow> ModdedDex_species_get lib (num gen) specieName)"

text \<open>
  \<^verbatim>\<open>moves: dset.moves.map(first)\<close>: a slot whose array of alternatives is empty gives an
  \<^verbatim>\<open>undefined\<close> move, which stays in the list.
\<close>

definition dexToPset :: "Generation \<Rightarrow> Specie \<Rightarrow> DexSet \<Rightarrow> error + PokemonSet" where
  "dexToPset gen specie dset =
     hiddenPower gen
       \<lparr>name = [],
        species = specie_name specie,
        item = (case first (d_item dset) of None \<Rightarrow> [] | Some v \<Rightarrow> v),
        ability = (case first (d_ability dset) of None \<Rightarrow> abilities_0 specie | Some v \<Rightarrow> v),
        moves = map (\<lambda>m. first (Some m)) (d_moves dset),
        nature = (case first (d_nature dset) of None \<Rightarrow> [] | Some v \<Rightarrow> v),
        gender = [],
        evs = fillStats (first (d_evs dset)) (if num gen < 3 then 252 else 0),
        ivs = fillStats None (if num gen = 2 then 30 else 31),
        level = (case first (d_level dset) of None \<Rightarrow> 100 | Some v \<Rightarrow> v),
        teraType = first (d_teratypes dset),
        hpType = None,
        shiny = None\<rparr>"

text \<open>\<^verbatim>\<open>!x || x === 'Nothing' ? '' : x\<close> on the result of \<^verbatim>\<open>top(_, 1)\<close>.\<close>

definition nothing_to_empty :: "top_result \<Rightarrow> string" where
  "nothing_to_empty x =
     (case x of Key k \<Rightarrow> (if k = [] \<or> k = ''Nothing'' then [] else k) | _ \<Rightarrow> [])"

definition keys_of :: "top_result \<Rightarrow> string list" where
  "keys_of x = (case x of Keys ks \<Rightarrow> ks | _ \<Rightarrow> [])"

text \<open>
  With no spread at all \<^verbatim>\<open>top\<close> gives \<^verbatim>\<open>undefined\<close>, and \<^verbatim>\<open>spread.split\<close> throws.
\<close>

definition usageToPset ::
  "Libraries \<Rightarrow> Generation \<Rightarrow> string \<Rightarrow> string \<Rightarrow> LegacyDisplayUsageStatistics
     \<Rightarrow> error + PokemonSet"
where
  "usageToPset lib gen formatID specieName uset =
     (case top_weighted (u_spreads uset) 1 of
        Key spread \<Rightarrow>
          (case fromSpread lib spread of
             Inl e \<Rightarrow> Inl e
           | Inr (nature0, evs0) \<Rightarrow>
               hiddenPower gen
                 \<lparr>name = [],
                  species = specieName,
                  item = nothing_to_empty (top_weighted (u_items uset) 1),
                  ability = nothing_to_empty (top_weighted (u_abilities uset) 1),
                  moves = map Some (filter (\<lambda>m. m \<noteq> ''Nothing'')
                                      (keys_of (top_weighted (u_moves uset) 4))),
                  nature = nature0,
                  gender = [],
                  evs = fillStats (Some evs0) (if num gen < 3 then 252 else 0),
                  ivs = fillStats None (if num gen = 2 then 30 else 31),
                  level = getLevel formatID,
                  teraType = None,
                  hpType = None,
                  shiny = None\<rparr>)
      | _ \<Rightarrow> Inl (TypeError ''spread.split''))"

definition psetToCalcSet :: "nat \<Rightarrow> PokemonSet \<Rightarrow> CalcSet" where
  "psetToCalcSet genNum pset =
     \<lparr>cs_moves = moves pset,
      cs_level = level pset,
      cs_ability = ability pset,
      cs_item = item pset,
      cs_nature = nature pset,
      cs_teraType = teraType pset,
      cs_evs = toCalcStatsTable (as_partial (evs pset)) (if genNum > 2 then 0 else 252),
      cs_ivs = toCalcStatsTable (as_partial (ivs pset)) (if genNum = 2 then 30 else 31)\<rparr>"

subsection \<open>\<^verbatim>\<open>validatePSet\<close>\<close>

text \<open>
  The module keeps one validator per format id in \<^verbatim>\<open>VALIDATORS\<close> and makes it on first
  use. What the console is sent is not part of the model, and so the parameter \<^verbatim>\<open>type\<close>,
  which only labels that output, is left out.
\<close>

definition getValidator ::
  "Libraries \<Rightarrow> (string \<rightharpoonup> validator) \<Rightarrow> Format \<Rightarrow> validator \<times> (string \<rightharpoonup> validator)"
where
  "getValidator lib VALIDATORS format =
     (case VALIDATORS (format_id format) of
        Some v \<Rightarrow> (v, VALIDATORS)
      | None \<Rightarrow> (new_TeamValidator lib format,
                 VALIDATORS(format_id format \<mapsto> new_TeamValidator lib format)))"

text \<open>
  The outcome of \<^verbatim>\<open>validatePSet\<close>: the boolean it returns, the record as the caller finds
  it afterwards, and the records that were handed to \<^verbatim>\<open>validateSet\<close>, in order.
\<close>

record Validated =
  accepted :: bool
  pset_out :: PokemonSet
  calls :: "PokemonSet list"

definition crowned :: "(string \<times> string) list" where
  "crowned = [(''Zacian-Crowned'', ''Behemoth Blade''),
              (''Zamazenta-Crowned'', ''Behemoth Bash'')]"

text \<open>The rename of \<^verbatim>\<open>ironhead\<close>, decided on the species read before the validation.\<close>

definition rename_crowned :: "string \<Rightarrow> PokemonSet \<Rightarrow> PokemonSet" where
  "rename_crowned species0 pset =
     (case map_of crowned species0 of
        None \<Rightarrow> pset
      | Some signature \<Rightarrow>
          (let ironhead = indexOf (moves pset) (Some ''ironhead'') in
           if ironhead > - 1 then pset\<lparr>moves := (moves pset)[nat ironhead := Some signature]\<rparr>
           else pset))"

text \<open>\<^verbatim>\<open>invalid.length === 1 && invalid[0].includes(phrase)\<close>.\<close>

definition single_violation :: "string list \<Rightarrow> string \<Rightarrow> bool" where
  "single_violation invalid phrase =
     (case invalid of [v] \<Rightarrow> str_includes v phrase | _ \<Rightarrow> False)"

text \<open>The Gen 4 Arceus exception; when it does not apply the set is logged and refused.\<close>

definition allowed_anyway :: "Format \<Rightarrow> PokemonSet \<Rightarrow> string list \<Rightarrow> bool" where
  "allowed_anyway format pset invalid =
     (format_id format = ''gen4ubers'' \<and> (name pset @ '' is banned.'') \<in> set invalid)"

text \<open>From the test for 0 EVs to the end of the function.\<close>

definition retry_evs ::
  "validator \<Rightarrow> Format \<Rightarrow> PokemonSet \<Rightarrow> string list \<Rightarrow> PokemonSet list \<Rightarrow> Validated"
where
  "retry_evs v format pset invalid cs =
     (if single_violation invalid ''has exactly 0 EVs - did you forget to EV it?'' then
        (let pset1 = pset\<lparr>evs := (evs pset)\<lparr>hp := 1\<rparr>\<rparr> in
         case snd (v pset1) of
           None \<Rightarrow> \<lparr>accepted = True, pset_out = fst (v pset1), calls = cs @ [pset1]\<rparr>
         | Some invalid1 \<Rightarrow>
             \<lparr>accepted = allowed_anyway format (fst (v pset1)) invalid1,
              pset_out = fst (v pset1), calls = cs @ [pset1]\<rparr>)
      else \<lparr>accepted = allowed_anyway format pset invalid, pset_out = pset, calls = cs\<rparr>)"

text \<open>From the test for shininess to the end of the function.\<close>

definition retry_shiny ::
  "validator \<Rightarrow> Format \<Rightarrow> PokemonSet \<Rightarrow> string list \<Rightarrow> PokemonSet list \<Rightarrow> Validated"
where
  "retry_shiny v format pset invalid cs =
     (if single_violation invalid ''must be shiny'' then
        (let pset1 = pset\<lparr>shiny := Some True\<rparr> in
         case snd (v pset1) of
           None \<Rightarrow> \<lparr>accepted = True, pset_out = fst (v pset1), calls = cs @ [pset1]\<rparr>
         | Some invalid1 \<Rightarrow> retry_evs v format (fst (v pset1)) invalid1 (cs @ [pset1]))
      else retry_evs v format pset invalid cs)"

text \<open>The function once the validator \<open>v\<close> of the format is at hand.\<close>

definition validateWith :: "validator \<Rightarrow> Format \<Rightarrow> PokemonSet \<Rightarrow> Validated" where
  "validateWith v format pset =
     (let species0 = species pset;
          ability0 = ability pset;
          pset1 = (rename_crowned species0 (fst (v pset)))\<lparr>ability := ability0\<rparr>
      in case snd (v pset) of
           None \<Rightarrow> \<lparr>accepted = True, pset_out = pset1, calls = [pset]\<rparr>
         | Some invalid \<Rightarrow> retry_shiny v format pset1 invalid [pset])"

definition validatePSet ::
  "Libraries \<Rightarrow> (string \<rightharpoonup> validator) \<Rightarrow> Format \<Rightarrow> PokemonSet
     \<Rightarrow> Validated \<times> (string \<rightharpoonup> validator)"
where
  "validatePSet lib VALIDATORS format pset =
     (validateWith (fst (getValidator lib VALIDATORS format)) format pset,
      snd (getValidator lib VALIDATORS format))"

subsection \<open>\<^verbatim>\<open>similarFormes\<close>\<close>

text \<open>A string that may be \<^verbatim>\<open>undefined\<close> is truthy when it is there and not empty.\<close>

definition truthy :: "string option \<Rightarrow> bool" where
  "truthy x = (case x of None \<Rightarrow> False | Some s \<Rightarrow> s \<noteq> [])"

text \<open>
  \<^verbatim>\<open>+/^gen(\d+)/.exec(format.id)![1]\<close>; \<open>None\<close> when the pattern does not match, where the
  source throws on reading \<^verbatim>\<open>[1]\<close> of \<^verbatim>\<open>null\<close>.
\<close>

definition genNum_of :: "string \<Rightarrow> nat option" where
  "genNum_of fid =
     (let ds = takeWhile is_digit (drop 3 fid) in
      if startsWith fid ''gen'' \<and> ds \<noteq> [] then Some (nat_of_digits ds) else None)"

definition isMrayAllowed :: "Libraries \<Rightarrow> Format \<Rightarrow> nat \<Rightarrow> bool" where
  "isMrayAllowed lib format genNum =
     (if genNum = 6 \<or> genNum = 7
      then \<not> ruleTable_has lib format ''megarayquazaclause''
           \<and> ''Rayquaza-Mega'' \<notin> set (banlist format)
      else str_includes (format_id format) ''nationaldex''
           \<and> (\<not> ruleTable_has lib format ''megarayquazaclause''
                \<and> ''Rayquaza-Mega'' \<notin> set (banlist format)))"

text \<open>The first \<^verbatim>\<open>if\<close>: whether it returns \<^verbatim>\<open>['Rayquaza-Mega']\<close>, or the error it throws.\<close>

definition toMegaRayquaza :: "Libraries \<Rightarrow> PokemonSet \<Rightarrow> Format option \<Rightarrow> error + bool" where
  "toMegaRayquaza lib pset format =
     (case format of
        None \<Rightarrow> Inr False
      | Some f \<Rightarrow>
          if species pset = ''Rayquaza'' \<and> Some ''Dragon Ascent'' \<in> set (moves pset) then
            (case genNum_of (format_id f) of
               None \<Rightarrow> Inl (TypeError ''exec(format.id)[1]'')
             | Some genNum \<Rightarrow> Inr (isMrayAllowed lib f genNum))
          else Inr False)"

text \<open>The second \<^verbatim>\<open>if\<close>.\<close>

definition toRayquaza :: "PokemonSet \<Rightarrow> Format option \<Rightarrow> bool" where
  "toRayquaza pset format =
     (case format of
        None \<Rightarrow> False
      | Some f \<Rightarrow>
          species pset = ''Rayquaza-Mega''
          \<and> (\<not> str_includes (format_id f) ''balancedhackmons'' \<or> str_includes (format_id f) ''bh''))"

text \<open>The fourth \<^verbatim>\<open>if\<close>: the forme it returns, \<open>None\<close> when its condition fails.\<close>

definition megaForme :: "Specie \<Rightarrow> Item option \<Rightarrow> string option" where
  "megaForme specie item0 =
     (case item0 of
        None \<Rightarrow> None
      | Some i \<Rightarrow>
          (case (megaEvolves i, megaStone i) of
             (Some evolves, Some stone) \<Rightarrow>
               if evolves \<noteq> [] \<and> stone \<noteq> [] \<and> specie_name specie = evolves
               then Some (if isMega specie then baseSpecies specie else stone)
               else None
           | _ \<Rightarrow> None))"

text \<open>
  The \<^verbatim>\<open>switch\<close>. The second spelling of Sirfetch'd has the typographic apostrophe
  U+2019, here its three bytes in UTF-8.
\<close>

definition formeTable :: "string \<Rightarrow> string list option" where
  "formeTable n =
     (if n = ''Aegislash'' then Some [''Aegislash-Blade'', ''Aegislash-Shield'', ''Aegislash-Both'']
      else if n = ''Darmanitan-Galar'' then Some [''Darmanitan-Galar-Zen'']
      else if n = ''Keldeo'' then Some [''Keldeo-Resolute'']
      else if n = ''Minior'' then Some [''Minior-Meteor'']
      else if n = ''Palafin'' then Some [''Palafin-Hero'']
      else if n = ''Rayquaza-Mega'' then Some [''Rayquaza'']
      else if n = ''Sirfetch'd'' then Some [''Sirfetch'' @ [CHR 0xE2, CHR 0x80, CHR 0x99] @ ''d'']
      else if n = ''Wishiwashi'' then Some [''Wishiwashi-School'']
      else None)"

definition similarFormes ::
  "Libraries \<Rightarrow> PokemonSet \<Rightarrow> Format option \<Rightarrow> Specie \<Rightarrow> Item option
     \<Rightarrow> error + string list option"
where
  "similarFormes lib pset format specie item0 =
     (case toMegaRayquaza lib pset format of
        Inl e \<Rightarrow> Inl e
      | Inr True \<Rightarrow> Inr (Some [''Rayquaza-Mega''])
      | Inr False \<Rightarrow>
          Inr (if toRayquaza pset format then Some [''Rayquaza'']
               else if ability pset = ''Power Construct'' then Some [''Zygarde-Complete'']
               else (case megaForme specie item0 of
                       Some forme \<Rightarrow> Some [forme]
                     | None \<Rightarrow> formeTable (specie_name specie))))"

subsection \<open>\<^verbatim>\<open>importGen\<close>\<close>

text \<open>
  The state of one import: the result \<^verbatim>\<open>calcSets\<close>, the sets \<^verbatim>\<open>statsIgnore\<close> and
  \<^verbatim>\<open>formatIDs\<close> (a \<^verbatim>\<open>Set\<close> is visited in the order of insertion), and the validators of
  the module.
\<close>

record ImportState =
  calcSets :: "string \<rightharpoonup> (string \<rightharpoonup> CalcSet)"
  statsIgnore :: "string \<rightharpoonup> string set"
  formatIDs :: "string list"
  VALIDATORS :: "string \<rightharpoonup> validator"

text \<open>A loop whose body may throw.\<close>

fun fold_err :: "('a \<Rightarrow> 's \<Rightarrow> error + 's) \<Rightarrow> 'a list \<Rightarrow> 's \<Rightarrow> error + 's" where
  "fold_err f [] st = Inr st"
| "fold_err f (x # xs) st = (case f x st of Inl e \<Rightarrow> Inl e | Inr st' \<Rightarrow> fold_err f xs st')"

fun string_of_nat :: "nat \<Rightarrow> string" where
  "string_of_nat n =
     (if n < 10 then [''0123456789'' ! n]
      else string_of_nat (n div 10) @ [''0123456789'' ! (n mod 10)])"

declare string_of_nat.simps [simp del]

text \<open>\<^verbatim>\<open>statsIgnore[x]?.has(formatID)\<close>.\<close>

definition ignored :: "(string \<rightharpoonup> string set) \<Rightarrow> string \<Rightarrow> string \<Rightarrow> bool" where
  "ignored si x formatID = (case si x of None \<Rightarrow> False | Some ids \<Rightarrow> formatID \<in> ids)"

text \<open>\<^verbatim>\<open>if (!statsIgnore[x]) statsIgnore[x] = new Set(); statsIgnore[x].add(formatID)\<close>.\<close>

definition ignore :: "string \<Rightarrow> string \<Rightarrow> ImportState \<Rightarrow> ImportState" where
  "ignore x formatID st =
     st\<lparr>statsIgnore := (statsIgnore st)
           (x \<mapsto> insert formatID (case statsIgnore st x of None \<Rightarrow> {} | Some ids \<Rightarrow> ids))\<rparr>"

text \<open>\<^verbatim>\<open>if (!calcSets[x]) calcSets[x] = {}; calcSets[x][setName] = calcSet\<close>.\<close>

definition store :: "string \<Rightarrow> string \<Rightarrow> CalcSet \<Rightarrow> ImportState \<Rightarrow> ImportState" where
  "store x setName calcSet st =
     st\<lparr>calcSets := (calcSets st)
           (x \<mapsto> (case calcSets st x of None \<Rightarrow> Map.empty | Some sets \<Rightarrow> sets)
                  (setName \<mapsto> calcSet))\<rparr>"

text \<open>
  \<^verbatim>\<open>UNSUPPORTED[formatID] ? null : Dex.formats.get(formatID)\<close> together with the name of
  the format, which is that of the format or else the entry of \<^verbatim>\<open>UNSUPPORTED\<close>.
\<close>

definition getFormat :: "Libraries \<Rightarrow> string \<Rightarrow> Format option \<times> string" where
  "getFormat lib formatID =
     (case map_of UNSUPPORTED formatID of
        Some unsupported \<Rightarrow> (None, unsupported)
      | None \<Rightarrow> (Some (Dex_formats_get lib formatID),
                 format_name (Dex_formats_get lib formatID)))"

text \<open>\<^verbatim>\<open>formatName.slice(formatName.indexOf(']') + 2)\<close>.\<close>

definition untagged :: "string \<Rightarrow> string" where
  "untagged formatName = slice_from formatName (indexOf formatName CHR '']'' + 2)"

text \<open>
  \<^verbatim>\<open>gen.items.get(pset.item) ?? ModdedDex.forGen(gen.num).items.get(pset.item)\<close>, as both
  passes have it: the second lookup is made when the first answers \<^verbatim>\<open>undefined\<close>, and its
  answer is the result.
\<close>

definition getItem :: "Libraries \<Rightarrow> Generation \<Rightarrow> string \<Rightarrow> Item option" where
  "getItem lib gen itemName =
     (case items_get gen itemName of
        Some i \<Rightarrow> Some i
      | None \<Rightarrow> ModdedDex_items_get lib (num gen) itemName)"

text \<open>
  \<^verbatim>\<open>format && !validatePSet(format, pset, ...)\<close>: the outcome and the validators
  afterwards; without a format nothing is validated.
\<close>

definition validated ::
  "Libraries \<Rightarrow> Format option \<Rightarrow> PokemonSet \<Rightarrow> ImportState \<Rightarrow> Validated \<times> ImportState"
where
  "validated lib format pset st =
     (case format of
        None \<Rightarrow> (\<lparr>accepted = True, pset_out = pset, calls = []\<rparr>, st)
      | Some f \<Rightarrow>
          (fst (validatePSet lib (VALIDATORS st) f pset),
           st\<lparr>VALIDATORS := snd (validatePSet lib (VALIDATORS st) f pset)\<rparr>))"

text \<open>The body of the loop over \<^verbatim>\<open>copyTo\<close> in the first pass.\<close>

definition copyDex ::
  "Libraries \<Rightarrow> Generation \<Rightarrow> string \<Rightarrow> string \<Rightarrow> CalcSet \<Rightarrow> string \<Rightarrow> ImportState \<Rightarrow> ImportState"
where
  "copyDex lib gen formatID setName calcSet forme st =
     (let st1 = ignore forme formatID st in
      if str_includes forme ''-Mega''
      then store forme setName
             (calcSet\<lparr>cs_ability := abilities_0 (getSpecie lib gen forme)\<rparr>) st1
      else store forme setName calcSet st1)"

text \<open>The body of the loop over the sets of one species in one format.\<close>

definition importDexSet ::
  "Libraries \<Rightarrow> Generation \<Rightarrow> string \<Rightarrow> string \<Rightarrow> Format option \<Rightarrow> string \<Rightarrow> Specie
     \<Rightarrow> string \<times> DexSet \<Rightarrow> ImportState \<Rightarrow> error + ImportState"
where
  "importDexSet lib gen specieName formatID format formatName specie entry st =
     (case dexToPset gen specie (snd entry) of
        Inl e \<Rightarrow> Inl e
      | Inr pset0 \<Rightarrow>
          (let checked = validated lib format pset0 st;
               pset = pset_out (fst checked)
           in if \<not> accepted (fst checked) then Inr (snd checked)
              else
                (let calcSet = psetToCalcSet (num gen) pset;
                     setName = untagged formatName @ '' '' @ fst entry;
                     st1 = ignore specieName formatID (store specieName setName calcSet (snd checked))
                 in case similarFormes lib pset format specie (getItem lib gen (item pset)) of
                      Inl e \<Rightarrow> Inl e
                    | Inr None \<Rightarrow> Inr st1
                    | Inr (Some copyTo) \<Rightarrow>
                        Inr (fold (copyDex lib gen formatID setName calcSet) copyTo st1))))"

text \<open>The body of the loop over the formats of one species.\<close>

definition importDexFormat ::
  "Libraries \<Rightarrow> Generation \<Rightarrow> string \<Rightarrow> string \<times> (string \<times> DexSet) list \<Rightarrow> ImportState
     \<Rightarrow> error + ImportState"
where
  "importDexFormat lib gen specieName entry st =
     (let formatID = ''gen'' @ string_of_nat (num gen) @ fst entry;
          format = fst (getFormat lib formatID);
          formatName = snd (getFormat lib formatID)
      in if (case format of None \<Rightarrow> False | Some f \<Rightarrow> \<not> format_exists f) then Inr st
         else fold_err
                (importDexSet lib gen specieName formatID format formatName
                   (getSpecie lib gen specieName))
                (snd entry)
                (st\<lparr>formatIDs := (if formatID \<in> set (formatIDs st) then formatIDs st
                                   else formatIDs st @ [formatID])\<rparr>))"

text \<open>The first pass, over the entries of \<^verbatim>\<open>dexSets\<close>.\<close>

definition importDexSets ::
  "Libraries \<Rightarrow> Generation \<Rightarrow> (string \<times> (string \<times> (string \<times> DexSet) list) list) list
     \<Rightarrow> ImportState \<Rightarrow> error + ImportState"
where
  "importDexSets lib gen dexSets st =
     fold_err (\<lambda>entry. fold_err (importDexFormat lib gen (fst entry)) (snd entry)) dexSets st"

text \<open>
  The body of the loop over \<^verbatim>\<open>copyTo\<close> in the second pass. Reading \<^verbatim>\<open>item.megaEvolves\<close> of
  an item that is \<^verbatim>\<open>undefined\<close> throws.
\<close>

definition copyUsage ::
  "Libraries \<Rightarrow> Generation \<Rightarrow> string \<Rightarrow> string \<Rightarrow> CalcSet \<Rightarrow> Item option \<Rightarrow> string
     \<Rightarrow> ImportState \<Rightarrow> error + ImportState"
where
  "copyUsage lib gen formatID setName calcSet item0 forme st =
     (if ignored (statsIgnore st) forme formatID then Inr st
      else (case item0 of
              None \<Rightarrow> Inl (TypeError ''item.megaEvolves'')
            | Some i \<Rightarrow>
                if truthy (megaEvolves i) \<and> truthy (megaStone i)
                then Inr (store forme setName
                            (calcSet\<lparr>cs_ability := abilities_0 (getSpecie lib gen forme)\<rparr>) st)
                else Inr (store forme setName calcSet st)))"

text \<open>The body of the loop over the species of one statistics page.\<close>

definition importUsage ::
  "Libraries \<Rightarrow> Generation \<Rightarrow> string \<Rightarrow> Format option \<Rightarrow> string \<Rightarrow> number
     \<Rightarrow> string \<times> LegacyDisplayUsageStatistics \<Rightarrow> ImportState \<Rightarrow> error + ImportState"
where
  "importUsage lib gen formatID format formatName threshold entry st =
     (if ignored (statsIgnore st) (fst entry) formatID then Inr st
      else if less_number (usage_weighted (snd entry)) threshold then Inr st
      else
        (let specie = getSpecie lib gen (fst entry) in
         case usageToPset lib gen formatID (specie_name specie) (snd entry) of
           Inl e \<Rightarrow> Inl e
         | Inr pset0 \<Rightarrow>
             (let checked = validated lib format pset0 st;
                  pset = pset_out (fst checked)
              in if \<not> accepted (fst checked) then Inr (snd checked)
                 else
                   (let calcSet = psetToCalcSet (num gen) pset;
                        setName = untagged formatName @ '' Showdown Usage'';
                        st1 = store (fst entry) setName calcSet (snd checked);
                        item0 = getItem lib gen (item pset)
                    in case similarFormes lib pset format specie item0 of
                         Inl e \<Rightarrow> Inl e
                       | Inr None \<Rightarrow> Inr st1
                       | Inr (Some copyTo) \<Rightarrow>
                           fold_err (copyUsage lib gen formatID setName calcSet item0)
                             copyTo st1))))"

text \<open>
  The body of the loop over \<^verbatim>\<open>formatIDs\<close>. \<open>fetchStats\<close> is what the fetch of the page of
  a format gives: \<open>None\<close> when there is no page or the fetch fails.
\<close>

definition importStats ::
  "Libraries \<Rightarrow> Generation \<Rightarrow> (string \<Rightarrow> DisplayStatistics option) \<Rightarrow> string \<Rightarrow> ImportState
     \<Rightarrow> error + ImportState"
where
  "importStats lib gen fetchStats formatID st =
     (let format = fst (getFormat lib formatID);
          formatName = snd (getFormat lib formatID)
      in if (case format of None \<Rightarrow> False | Some f \<Rightarrow> \<not> format_exists f) then Inr st
         else (case fetchStats formatID of
                 None \<Rightarrow> Inr st
               | Some stats \<Rightarrow>
                   fold_err
                     (importUsage lib gen formatID format formatName
                        (getUsageThreshold formatID (battles stats)))
                     (pokemon stats) st))"

text \<open>
  \<^verbatim>\<open>calcSets[x]?.[setName]\<close>, the set stored for an identity under a name, if any; and the
  name under which the second pass stores the set it builds from the statistics page of
  a format.
\<close>

definition calcSet_at ::
  "(string \<rightharpoonup> (string \<rightharpoonup> CalcSet)) \<Rightarrow> string \<Rightarrow> string \<Rightarrow> CalcSet option"
where
  "calcSet_at sets x setName = (case sets x of None \<Rightarrow> None | Some m \<Rightarrow> m setName)"

definition usageName :: "Libraries \<Rightarrow> string \<Rightarrow> string" where
  "usageName lib formatID = untagged (snd (getFormat lib formatID)) @ '' Showdown Usage''"

text \<open>
  The import of a generation, given what the two fetches return and the validators the
  module holds at the call. It returns \<^verbatim>\<open>calcSets\<close>; the validators stay with the module.
\<close>

definition importGen ::
  "Libraries \<Rightarrow> Generation \<Rightarrow> (string \<times> (string \<times> (string \<times> DexSet) list) list) list
     \<Rightarrow> (string \<Rightarrow> DisplayStatistics option) \<Rightarrow> (string \<rightharpoonup> validator)
     \<Rightarrow> error + (string \<rightharpoonup> (string \<rightharpoonup> CalcSet)) \<times> (string \<rightharpoonup> validator)"
where
  "importGen lib gen dexSets fetchStats validators =
     (case importDexSets lib gen dexSets
             \<lparr>calcSets = Map.empty, statsIgnore = Map.empty, formatIDs = [],
              VALIDATORS = validators\<rparr> of
        Inl e \<Rightarrow> Inl e
      | Inr st1 \<Rightarrow>
          (case fold_err (importStats lib gen fetchStats) (formatIDs st1) st1 of
             Inl e \<Rightarrow> Inl e
           | Inr st2 \<Rightarrow> Inr (calcSets st2, VALIDATORS st2)))"

subsection \<open>A small world for the examples\<close>

text \<open>
  Reference data in which every format exists and is named after its identifier, no
  format has a rule or a ban, the generation knows Aegislash and the Rayquaza formes and
  no item, the second item lookup answers an item that is no mega stone for every name,
  and the validator accepts every set as it is; and the same with a second item lookup
  that answers \<^verbatim>\<open>undefined\<close>.
\<close>

definition example_species :: "string \<Rightarrow> Specie option" where
  "example_species s =
     (if s = ''Aegislash''
      then Some \<lparr>specie_name = ''Aegislash'', abilities_0 = ''Stance Change'', isMega = False,
                 baseSpecies = ''Aegislash''\<rparr>
      else if s = ''Rayquaza''
      then Some \<lparr>specie_name = ''Rayquaza'', abilities_0 = ''Air Lock'', isMega = False,
                 baseSpecies = ''Rayquaza''\<rparr>
      else if s = ''Rayquaza-Mega''
      then Some \<lparr>specie_name = ''Rayquaza-Mega'', abilities_0 = ''Delta Stream'', isMega = True,
                 baseSpecies = ''Rayquaza''\<rparr>
      else None)"

text \<open>
  The \<^verbatim>\<open>Number\<close> of the examples. On the empty string, which is 0, and on a string of
  decimal digits, which is its value, it is the built-in; the examples hold no other
  string.
\<close>

definition example_Number :: "string \<Rightarrow> int option" where
  "example_Number s =
     (if s = [] then Some 0
      else if list_all is_digit s then Some (int (nat_of_digits s))
      else None)"

definition example_gen :: Generation where
  "example_gen =
     \<lparr>num = 7, dex_gen = 7,
      species_get = example_species,
      items_get = (\<lambda>i. None),
      getHiddenPower_type = (\<lambda>t. ''Dark''),
      types_HPdvs = (\<lambda>t. no_stats),
      types_HPivs = (\<lambda>t. no_stats)\<rparr>"

definition example_lib :: Libraries where
  "example_lib =
     \<lparr>ModdedDex_species_get =
        (\<lambda>n s. \<lparr>specie_name = s, abilities_0 = [], isMega = False, baseSpecies = s\<rparr>),
      ModdedDex_items_get = (\<lambda>n i. Some \<lparr>megaEvolves = None, megaStone = None\<rparr>),
      Dex_formats_get =
        (\<lambda>fid. \<lparr>format_id = fid, format_name = ''[Gen 7] '' @ drop 4 fid,
                 format_exists = True, banlist = []\<rparr>),
      ruleTable_has = (\<lambda>f r. False),
      new_TeamValidator = (\<lambda>f pset. (pset, None)),
      Number = example_Number\<rparr>"

definition example_lib_no_item :: Libraries where
  "example_lib_no_item = example_lib\<lparr>ModdedDex_items_get := (\<lambda>n i. None)\<rparr>"

definition example_format :: "string \<Rightarrow> Format" where
  "example_format fid = Dex_formats_get example_lib fid"

definition example_pset :: "string \<Rightarrow> string \<Rightarrow> PokemonSet" where
  "example_pset s a =
     \<lparr>name = [], species = s, item = [], ability = a,
      moves = [Some ''Iron Head'', Some ''Shadow Sneak''], nature = ''Adamant'', gender = [],
      evs = fillStats None 0, ivs = fillStats None 31, level = 100,
      teraType = None, hpType = None, shiny = None\<rparr>"

text \<open>
  A validator that wants the set shiny, then wants an HP EV other than 0, and changes
  nothing; and one that, as for a mega, overwrites the ability on every call and wants
  the set shiny.
\<close>

definition shiny_then_evs :: validator where
  "shiny_then_evs pset =
     (if shiny pset \<noteq> Some True then (pset, Some [''Pikachu must be shiny.''])
      else if hp (evs pset) = 0
      then (pset, Some [''Pikachu has exactly 0 EVs - did you forget to EV it? (add 1)''])
      else (pset, None))"

definition mega_shiny :: validator where
  "mega_shiny pset =
     (pset\<lparr>ability := ''Delta Stream''\<rparr>,
      if shiny pset = Some True then None else Some [''Rayquaza must be shiny.''])"

text \<open>
  A curated set and a bucket of usage statistics, the latter with no item (the top item
  is \<open>Nothing\<close>); the curated sets of a generation, which are that one set, for
  Aegislash-Blade in \<open>ou\<close>; a statistics page of \<open>gen7ou\<close> that lists Aegislash-Blade and
  Aegislash; the state at the start of an import; the state once the first pass has
  entered the format \<open>gen7ou\<close>; and the state once the curated set has been imported.
\<close>

definition example_dset :: DexSet where
  "example_dset =
     \<lparr>d_moves = [Single ''Iron Head'', Alternatives [''Shadow Sneak'', ''Sacred Sword'']],
      d_level = None,
      d_ability = Some (Single ''Stance Change''),
      d_item = Some (Alternatives [''Leftovers'', ''Life Orb'']),
      d_nature = Some (Single ''Adamant''),
      d_teratypes = None,
      d_evs = Some (Single \<lparr>hp = Some 252, atk = Some 252, def = None, spa = None,
                            spd = Some 4, spe = None\<rparr>),
      d_ivs = None\<rparr>"

definition example_uset :: LegacyDisplayUsageStatistics where
  "example_uset =
     \<lparr>u_spreads = [(''Adamant:252/252/0/0/4/0'', 1)],
      u_items = [(''Nothing'', 1)],
      u_abilities = [(''Stance Change'', 1)],
      u_moves = [(''Iron Head'', 1), (''Shadow Sneak'', 1 / 2)],
      usage_weighted = 1 / 2\<rparr>"

definition example_stats :: "string \<Rightarrow> DisplayStatistics option" where
  "example_stats fid =
     (if fid = ''gen7ou''
      then Some \<lparr>battles = 10000,
                 pokemon = [(''Aegislash-Blade'', example_uset), (''Aegislash'', example_uset)]\<rparr>
      else None)"

definition example_dexSets :: "(string \<times> (string \<times> (string \<times> DexSet) list) list) list" where
  "example_dexSets = [(''Aegislash-Blade'', [(''ou'', [(''Swords Dance'', example_dset)])])]"

definition example_start :: ImportState where
  "example_start =
     \<lparr>calcSets = Map.empty, statsIgnore = Map.empty, formatIDs = [], VALIDATORS = Map.empty\<rparr>"

definition example_entered :: ImportState where
  "example_entered = example_start\<lparr>formatIDs := [''gen7ou'']\<rparr>"

definition example_covered :: ImportState where
  "example_covered =
     \<lparr>calcSets =
        [''Aegislash-Blade'' \<mapsto>
           [''ou Swords Dance'' \<mapsto>
              psetToCalcSet 7
                \<lparr>name = [], species = ''Aegislash-Blade'', item = ''Leftovers'',
                 ability = ''Stance Change'',
                 moves = [Some ''Iron Head'', Some ''Shadow Sneak''],
                 nature = ''Adamant'', gender = [],
                 evs = \<lparr>hp = 252, atk = 252, def = 0, spa = 0, spd = 4, spe = 0\<rparr>,
                 ivs = fillStats None 31, level = 100, teraType = None, hpType = None,
                 shiny = None\<rparr>]],
      statsIgnore = [''Aegislash-Blade'' \<mapsto> {''gen7ou''}],
      formatIDs = [''gen7ou''],
      VALIDATORS = [''gen7ou'' \<mapsto> (\<lambda>pset. (pset, None))]\<rparr>"

section \<open>Properties\<close>

subsection \<open>The stat-table normalizer\<close>

lemma fold_calc_hp:
  "c_hp (fold (calc_stat_step stats ig) ks acc) =
     (if HP \<in> set ks \<and> hp stats \<noteq> Some ig then hp stats else c_hp acc)"
  by (induction ks arbitrary: acc) (auto simp: calc_stat_step_def)

lemma fold_calc_at:
  "c_at (fold (calc_stat_step stats ig) ks acc) =
     (if ATK \<in> set ks \<and> atk stats \<noteq> Some ig then atk stats else c_at acc)"
  by (induction ks arbitrary: acc) (auto simp: calc_stat_step_def)

lemma fold_calc_df:
  "c_df (fold (calc_stat_step stats ig) ks acc) =
     (if DEF \<in> set ks \<and> def stats \<noteq> Some ig then def stats else c_df acc)"
  by (induction ks arbitrary: acc) (auto simp: calc_stat_step_def)

lemma fold_calc_sa:
  "c_sa (fold (calc_stat_step stats ig) ks acc) =
     (if SPA \<in> set ks \<and> spa stats \<noteq> Some ig then spa stats else c_sa acc)"
  by (induction ks arbitrary: acc) (auto simp: calc_stat_step_def)

lemma fold_calc_sd:
  "c_sd (fold (calc_stat_step stats ig) ks acc) =
     (if SPD \<in> set ks \<and> spd stats \<noteq> Some ig then spd stats else c_sd acc)"
  by (induction ks arbitrary: acc) (auto simp: calc_stat_step_def)

lemma fold_calc_sp:
  "c_sp (fold (calc_stat_step stats ig) ks acc) =
     (if SPE \<in> set ks \<and> spe stats \<noteq> Some ig then spe stats else c_sp acc)"
  by (induction ks arbitrary: acc) (auto simp: calc_stat_step_def)

lemma stat_keys_mem: "k \<in> set (stat_keys stats) \<longleftrightarrow> stat_get stats k \<noteq> None"
  by (cases k) (simp_all add: stat_keys_def stat_ids_def)

lemma toCalc_hp:
  "c_hp (toCalcStatsTable stats ig) = (if hp stats = Some ig then None else hp stats)"
  by (simp add: toCalcStatsTable_def fold_calc_hp stat_keys_mem no_calc_stats_def)

lemma toCalc_at:
  "c_at (toCalcStatsTable stats ig) = (if atk stats = Some ig then None else atk stats)"
  by (simp add: toCalcStatsTable_def fold_calc_at stat_keys_mem no_calc_stats_def)

lemma toCalc_df:
  "c_df (toCalcStatsTable stats ig) = (if def stats = Some ig then None else def stats)"
  by (simp add: toCalcStatsTable_def fold_calc_df stat_keys_mem no_calc_stats_def)

lemma toCalc_sa:
  "c_sa (toCalcStatsTable stats ig) = (if spa stats = Some ig then None else spa stats)"
  by (simp add: toCalcStatsTable_def fold_calc_sa stat_keys_mem no_calc_stats_def)

lemma toCalc_sd:
  "c_sd (toCalcStatsTable stats ig) = (if spd stats = Some ig then None else spd stats)"
  by (simp add: toCalcStatsTable_def fold_calc_sd stat_keys_mem no_calc_stats_def)

lemma toCalc_sp:
  "c_sp (toCalcStatsTable stats ig) = (if spe stats = Some ig then None else spe stats)"
  by (simp add: toCalcStatsTable_def fold_calc_sp stat_keys_mem no_calc_stats_def)

text \<open>
  C6. Whatever the table and the ignore value, each two-letter key of the condensed table
  is there exactly when the table has the stat with a value other than the ignore value,
  and then carries that value; and expanding the condensed form of a full table with the
  ignore value as fill gives the table back.
\<close>

theorem toCalcStatsTable_round_trip:
  "c_hp (toCalcStatsTable stats ignoreVal) = (if hp stats = Some ignoreVal then None else hp stats)
   \<and> c_at (toCalcStatsTable stats ignoreVal) = (if atk stats = Some ignoreVal then None else atk stats)
   \<and> c_df (toCalcStatsTable stats ignoreVal) = (if def stats = Some ignoreVal then None else def stats)
   \<and> c_sa (toCalcStatsTable stats ignoreVal) = (if spa stats = Some ignoreVal then None else spa stats)
   \<and> c_sd (toCalcStatsTable stats ignoreVal) = (if spd stats = Some ignoreVal then None else spd stats)
   \<and> c_sp (toCalcStatsTable stats ignoreVal) = (if spe stats = Some ignoreVal then None else spe stats)
   \<and> expandCalcStatsTable (toCalcStatsTable (as_partial full) ignoreVal) ignoreVal = full"
  by (simp add: toCalc_hp toCalc_at toCalc_df toCalc_sa toCalc_sd toCalc_sp
        expandCalcStatsTable_def as_partial_def)

subsection \<open>The usage threshold\<close>

text \<open>
  C2. The parameter \<^verbatim>\<open>formatID\<close> is an \<^verbatim>\<open>ID\<close>, an identifier in lower case: lower-casing
  leaves it as it is. For every such identifier the threshold is infinite below 100
  battles, so that every finite weighted usage is below it and is rejected; it is 0.05
  from 100 to 399 battles; and from 400 on it is 0.03 when the identifier contains
  \<open>uber\<close>, \<open>anythinggoes\<close> or \<open>doublesou\<close>, the case of the letters being ignored, and 0.01
  otherwise. With 10000 battles \<open>gen9ubers\<close> gets 0.03 and \<open>gen9ou\<close> 0.01.
\<close>

theorem getUsageThreshold_cases:
  assumes "map lower_char formatID = formatID"
  shows "getUsageThreshold formatID count =
     (if count < 100 then Infinity
      else if count < 400 then Finite (5 / 100)
      else if str_includes (map lower_char formatID) ''uber''
              \<or> str_includes (map lower_char formatID) ''anythinggoes''
              \<or> str_includes (map lower_char formatID) ''doublesou''
      then Finite (3 / 100) else Finite (1 / 100))
   \<and> (lower_quality_nocase formatID \<longleftrightarrow>
        str_includes (map lower_char formatID) ''uber''
        \<or> str_includes (map lower_char formatID) ''anythinggoes''
        \<or> str_includes (map lower_char formatID) ''doublesou'')
   \<and> (count < 100 \<longrightarrow> less_number w (getUsageThreshold formatID count))
   \<and> getUsageThreshold ''gen9ubers'' 10000 = Finite (3 / 100)
   \<and> getUsageThreshold ''gen9ou'' 10000 = Finite (1 / 100)"
  using assms by (simp add: getUsageThreshold_def lower_quality_def lower_quality_nocase_def)

theorem getUsageThreshold_cases_witness:
  "map lower_char ''gen9doublesou'' = ''gen9doublesou''
   \<and> str_includes (map lower_char ''gen9doublesou'') ''doublesou''
   \<and> getUsageThreshold ''gen9doublesou'' 10000 = Finite (3 / 100)
   \<and> getUsageThreshold ''gen9doublesou'' 200 = Finite (5 / 100)
   \<and> getUsageThreshold ''gen9doublesou'' 50 = Infinity
   \<and> less_number (999 / 10) (getUsageThreshold ''gen9doublesou'' 50)"
proof -
  have lower: "map lower_char ''gen9doublesou'' = ''gen9doublesou''"
    by (simp add: lower_char_def)
  from getUsageThreshold_cases [OF lower, of 10000 0]
    getUsageThreshold_cases [OF lower, of 200 0]
    getUsageThreshold_cases [OF lower, of 50 "999 / 10"] lower
  show ?thesis by simp
qed

text \<open>
  The hypothesis is needed. The pattern of the source has no flag \<^verbatim>\<open>i\<close>: on a string with
  upper-case letters, which no identifier is, the match differs from the match that
  ignores case.
\<close>

lemma getUsageThreshold_upper_case:
  "map lower_char ''gen9UBERS'' \<noteq> ''gen9UBERS''
   \<and> lower_quality_nocase ''gen9UBERS''
   \<and> getUsageThreshold ''gen9UBERS'' 10000 = Finite (1 / 100)"
  by (simp add: lower_quality_nocase_def lower_quality_def lower_char_def getUsageThreshold_def)

subsection \<open>The HP of generation 2\<close>

lemma js_rem_2: "0 \<le> a \<Longrightarrow> js_rem a 2 = a mod 2"
  by (simp add: js_rem_def)

lemma expectedHP_unfold:
  "expectedHP ivs0 =
     2 * (8 * js_rem ((case atk ivs0 of None \<Rightarrow> 31 | Some v \<Rightarrow> v) div 2) 2
        + 4 * js_rem ((case def ivs0 of None \<Rightarrow> 31 | Some v \<Rightarrow> v) div 2) 2
        + 2 * js_rem ((case spe ivs0 of None \<Rightarrow> 31 | Some v \<Rightarrow> v) div 2) 2
        + js_rem ((case spa ivs0 of None \<Rightarrow> 31 | Some v \<Rightarrow> v) div 2) 2)"
  by (simp add: expectedHP_def fillStats_def Let_def)

text \<open>
  C3, as the claim has it, fails in its first example: the table
  \<open>{atk: 30, def: 30, spe: 30, spa: 30}\<close> has the four halves 15, which are odd, and its HP
  is 30, not 0.
\<close>

theorem expectedHP_30_counterexample:
  "expectedHP \<lparr>hp = None, atk = Some 30, def = Some 30, spa = Some 30, spd = None,
               spe = Some 30\<rparr> = 30
   \<and> expectedHP \<lparr>hp = None, atk = Some 30, def = Some 30, spa = Some 30, spd = None,
                 spe = Some 30\<rparr> \<noteq> 0"
  by (simp add: expectedHP_unfold js_rem_def)

text \<open>
  C3, amended. With every missing value taken as 31 and the halves \<open>v div 2\<close> of atk, def,
  spe and spa, the HP is twice the sum of 8 times the remainder of the atk half by 2, 4
  times that of def, 2 times that of spe, and that of spa, where the remainder is that
  of the source's \<^verbatim>\<open>%\<close>, which is \<open>mod\<close> on the values from 0 up that a table holds. So
  the HP is 30 when the four halves are odd, as for \<open>{atk: 30, def: 30, spe: 30, spa: 30}\<close>
  and for the empty table, and 0 when they are even, as for the four values 28.
\<close>

theorem expectedHP_derivation:
  "(let a = (case atk ivs0 of None \<Rightarrow> 31 | Some v \<Rightarrow> v);
        d = (case def ivs0 of None \<Rightarrow> 31 | Some v \<Rightarrow> v);
        s = (case spe ivs0 of None \<Rightarrow> 31 | Some v \<Rightarrow> v);
        c = (case spa ivs0 of None \<Rightarrow> 31 | Some v \<Rightarrow> v)
    in expectedHP ivs0 =
         2 * (8 * js_rem (a div 2) 2 + 4 * js_rem (d div 2) 2 + 2 * js_rem (s div 2) 2
              + js_rem (c div 2) 2)
       \<and> (0 \<le> a \<and> 0 \<le> d \<and> 0 \<le> s \<and> 0 \<le> c \<longrightarrow>
            expectedHP ivs0 =
              2 * (8 * ((a div 2) mod 2) + 4 * ((d div 2) mod 2) + 2 * ((s div 2) mod 2)
                   + (c div 2) mod 2))
       \<and> (0 \<le> a \<and> 0 \<le> d \<and> 0 \<le> s \<and> 0 \<le> c
            \<and> odd (a div 2) \<and> odd (d div 2) \<and> odd (s div 2) \<and> odd (c div 2) \<longrightarrow>
            expectedHP ivs0 = 30)
       \<and> (even (a div 2) \<and> even (d div 2) \<and> even (s div 2) \<and> even (c div 2) \<longrightarrow>
            expectedHP ivs0 = 0))
   \<and> expectedHP \<lparr>hp = None, atk = Some 30, def = Some 30, spa = Some 30, spd = None,
                 spe = Some 30\<rparr> = 30
   \<and> expectedHP no_stats = 30
   \<and> expectedHP \<lparr>hp = None, atk = Some 28, def = Some 28, spa = Some 28, spd = None,
                 spe = Some 28\<rparr> = 0"
proof -
  have odd_rem: "js_rem x 2 = 1" if "0 \<le> x" "odd x" for x
    using that by (simp add: js_rem_2 odd_iff_mod_2_eq_one)
  have even_rem: "js_rem x 2 = 0" if "even x" for x
    using that by (auto simp: js_rem_def)
  have nonneg: "0 \<le> x div 2" if "0 \<le> x" for x :: int
    using that by simp
  show ?thesis
    unfolding Let_def
    by (simp add: expectedHP_unfold odd_rem even_rem nonneg js_rem_2 no_stats_def)
qed

theorem expectedHP_derivation_witness:
  "expectedHP \<lparr>hp = Some 7, atk = Some 26, def = Some 31, spa = Some 12, spd = Some 0,
               spe = Some 5\<rparr> = 2 * (8 * 1 + 4 * 1 + 2 * 0 + 0)
   \<and> expectedHP \<lparr>hp = Some 7, atk = Some 2, def = Some 3, spa = Some 6, spd = Some 0,
                 spe = Some 31\<rparr> = 30
   \<and> expectedHP \<lparr>hp = Some 7, atk = Some 0, def = Some 1, spa = Some 4, spd = Some 0,
                 spe = Some 9\<rparr> = 0"
  using expectedHP_derivation
          [of "\<lparr>hp = Some 7, atk = Some 26, def = Some 31, spa = Some 12, spd = Some 0,
                spe = Some 5\<rparr>"]
        expectedHP_derivation
          [of "\<lparr>hp = Some 7, atk = Some 2, def = Some 3, spa = Some 6, spd = Some 0,
                spe = Some 31\<rparr>"]
        expectedHP_derivation
          [of "\<lparr>hp = Some 7, atk = Some 0, def = Some 1, spa = Some 4, spd = Some 0,
                spe = Some 9\<rparr>"]
  by (simp add: Let_def)

subsection \<open>The selector\<close>

text \<open>
  C7 fails on a map that has the empty string as a key: \<^verbatim>\<open>!max\<close> holds of the empty
  string as it does of \<^verbatim>\<open>undefined\<close>, so the key that follows it replaces it whatever
  the weights. For the map of the empty string to 10 and of \<open>a\<close> to 1 the selector answers
  \<open>a\<close>, of weight 1. The sort of the case \<open>n \<ge> 2\<close> treats the empty key as any other: on
  the same map it puts it first.
\<close>

theorem top_empty_key:
  "top_weighted [('''', 10), (''a'', 1)] 1 = Key ''a''
   \<and> weight_of [('''', 10), (''a'', 1)] '''' = Some 10
   \<and> weight_of [('''', 10), (''a'', 1)] ''a'' = Some 1
   \<and> top_weighted [('''', 10), (''a'', 1)] 2 = Keys ['''', ''a'']"
  by (simp add: top_weighted_def not_max_def weight_less_def weight_of_def sort_desc_def)

text \<open>
  The rest of the contract of the selector holds. With \<open>n = 0\<close> it returns nothing; on
  the empty map with \<open>n = 1\<close> it returns \<^verbatim>\<open>undefined\<close>; with \<open>n\<close> from 2 on it returns the
  first \<open>n\<close> keys of the stable sort by falling weight, so \<open>min n |map|\<close> keys, of
  non-increasing weight, keys of equal weight in the order of the map; and on a map
  without the empty key, with \<open>n = 1\<close>, it returns the first key of greatest weight.
\<close>

lemma top_zero: "top_weighted weighted 0 = Undefined"
  by (simp add: top_weighted_def)

lemma top_one_empty: "top_weighted [] 1 = Undefined"
  by (simp add: top_weighted_def)

lemma top_many:
  assumes "2 \<le> n"
  shows "\<exists>ks. top_weighted weighted n = Keys (map fst ks)
              \<and> ks = take n (sort_desc weighted)
              \<and> length ks = min n (length weighted)
              \<and> sorted_wrt (\<lambda>a b. snd b \<le> snd a) ks
              \<and> set (sort_desc weighted) = set weighted
              \<and> (\<forall>x. filter (\<lambda>e. snd e = x) (sort_desc weighted)
                       = filter (\<lambda>e. snd e = x) weighted)"
proof -
  have sorted: "sorted (map (\<lambda>e. - snd e) (sort_desc weighted))"
    by (simp add: sort_desc_def)
  then have "sorted_wrt (\<lambda>a b. - snd a \<le> - snd b) (sort_desc weighted)"
    by (simp add: sorted_map)
  then have "sorted_wrt (\<lambda>a b. snd b \<le> snd a) (sort_desc weighted)"
    by simp
  then have desc: "sorted_wrt (\<lambda>a b. snd b \<le> snd a) (take n (sort_desc weighted))"
    by (rule sorted_wrt_take)
  have stable: "filter (\<lambda>e. snd e = x) (sort_desc weighted) = filter (\<lambda>e. snd e = x) weighted"
    for x
    using sort_key_stable [of "\<lambda>e. - snd e" "- x" weighted] by (simp add: sort_desc_def)
  have len: "length (take n (sort_desc weighted)) = min n (length weighted)"
    by (simp add: sort_desc_def min.commute)
  from assms have "top_weighted weighted n = Keys (map fst (take n (sort_desc weighted)))"
    by (simp add: top_weighted_def)
  with desc stable len show ?thesis
    by (simp add: sort_desc_def)
qed

lemma top_loop_first_greatest:
  assumes "\<forall>k \<in> set ks. k \<noteq> [] \<and> weight_of weighted k \<noteq> None"
    and "c \<noteq> []" and "weight_of weighted c \<noteq> None"
    and "\<forall>k \<in> set before. the (weight_of weighted k) < the (weight_of weighted c)"
    and "\<forall>k \<in> set since. the (weight_of weighted k) \<le> the (weight_of weighted c)"
  shows "\<exists>r pre post. top_loop weighted ks (Some c) = Some r
           \<and> before @ c # since @ ks = pre @ r # post
           \<and> (\<forall>k \<in> set pre. the (weight_of weighted k) < the (weight_of weighted r))
           \<and> (\<forall>k \<in> set post. the (weight_of weighted k) \<le> the (weight_of weighted r))"
  using assms
proof (induction ks arbitrary: c before since)
  case Nil
  then show ?case by (intro exI [of _ c] exI [of _ before] exI [of _ since]) simp
next
  case (Cons key ks)
  from Cons.prems(1) have key: "key \<noteq> []" "weight_of weighted key \<noteq> None"
    and ks: "\<forall>k \<in> set ks. k \<noteq> [] \<and> weight_of weighted k \<noteq> None"
    by simp_all
  show ?case
  proof (cases "the (weight_of weighted c) < the (weight_of weighted key)")
    case True
    with Cons.prems(3) key have step: "top_loop weighted (key # ks) (Some c)
                                        = top_loop weighted ks (Some key)"
      by (auto simp: not_max_def weight_less_def)
    have b: "\<forall>k \<in> set (before @ c # since).
               the (weight_of weighted k) < the (weight_of weighted key)"
      using True Cons.prems(4,5) by auto
    have s: "\<forall>k \<in> set []. the (weight_of weighted k) \<le> the (weight_of weighted key)"
      by simp
    from Cons.IH [OF ks key b s] step show ?thesis by simp
  next
    case False
    with Cons.prems(2,3) key have step: "top_loop weighted (key # ks) (Some c)
                                           = top_loop weighted ks (Some c)"
      by (auto simp: not_max_def weight_less_def)
    have s: "\<forall>k \<in> set (since @ [key]).
               the (weight_of weighted k) \<le> the (weight_of weighted c)"
      using False Cons.prems(5) by auto
    from Cons.IH [OF ks Cons.prems(2,3,4) s] step show ?thesis by simp
  qed
qed

lemma top_one_first_greatest:
  assumes "weighted \<noteq> []" and "[] \<notin> fst ` set weighted"
  shows "\<exists>r pre post. top_weighted weighted 1 = Key r
           \<and> map fst weighted = pre @ r # post
           \<and> (\<forall>k \<in> set pre. the (weight_of weighted k) < the (weight_of weighted r))
           \<and> (\<forall>k \<in> set post. the (weight_of weighted k) \<le> the (weight_of weighted r))"
proof -
  from assms(1) obtain c w rest where weighted: "weighted = (c, w) # rest"
    by (cases weighted) auto
  have dom: "weight_of weighted k \<noteq> None" if "k \<in> fst ` set weighted" for k
    using that by (simp add: weight_of_def map_of_eq_None_iff)
  have "c \<in> fst ` set weighted" by (simp add: weighted)
  with assms(2) dom have c: "c \<noteq> []" "weight_of weighted c \<noteq> None"
    by metis+
  have ks: "\<forall>k \<in> set (map fst rest). k \<noteq> [] \<and> weight_of weighted k \<noteq> None"
  proof
    fix k
    assume "k \<in> set (map fst rest)"
    then have k: "k \<in> fst ` set weighted" by (simp add: weighted)
    with assms(2) have "k \<noteq> []" by metis
    with dom [OF k] show "k \<noteq> [] \<and> weight_of weighted k \<noteq> None" by simp
  qed
  have first: "top_loop weighted (map fst weighted) None = top_loop weighted (map fst rest) (Some c)"
    by (simp add: weighted not_max_def)
  from top_loop_first_greatest [OF ks c, of "[]" "[]"]
  obtain r pre post where r: "top_loop weighted (map fst rest) (Some c) = Some r"
    and split: "c # map fst rest = pre @ r # post"
    and less: "\<forall>k \<in> set pre. the (weight_of weighted k) < the (weight_of weighted r)"
    and greatest: "\<forall>k \<in> set post. the (weight_of weighted k) \<le> the (weight_of weighted r)"
    by auto
  from first r have "top_weighted weighted 1 = Key r"
    by (simp add: top_weighted_def)
  moreover from split have "map fst weighted = pre @ r # post"
    by (simp add: weighted)
  ultimately show ?thesis using less greatest by blast
qed


subsection \<open>The forme resolver\<close>

lemma toMegaRayquaza_other:
  "species pset \<noteq> ''Rayquaza'' \<Longrightarrow> toMegaRayquaza lib pset format = Inr False"
  by (simp add: toMegaRayquaza_def split: option.splits)




text \<open>
  The whole of what the resolver does with a record of Rayquaza-Mega in a format: it
  returns \<open>[Rayquaza]\<close> when the second rule fires, and also when that rule does not fire,
  the ability is not Power Construct, and either the item is a mega stone of the species
  that gives Rayquaza or there is no such stone and the species looked up is named
  Rayquaza-Mega.
\<close>

lemma formeTable_rayquaza: "formeTable n = Some [''Rayquaza''] \<longleftrightarrow> n = ''Rayquaza-Mega''"
  by (simp add: formeTable_def)

lemma similarFormes_rayquaza_mega_iff:
  assumes "species pset = ''Rayquaza-Mega''"
  shows "similarFormes lib pset (Some f) specie item0 = Inr (Some [''Rayquaza'']) \<longleftrightarrow>
           (\<not> str_includes (format_id f) ''balancedhackmons'' \<or> str_includes (format_id f) ''bh'')
           \<or> (ability pset \<noteq> ''Power Construct''
               \<and> (megaForme specie item0 = Some ''Rayquaza''
                    \<or> (megaForme specie item0 = None \<and> specie_name specie = ''Rayquaza-Mega'')))"
  using assms
  by (auto simp: similarFormes_def toMegaRayquaza_other toRayquaza_def formeTable_rayquaza
        split: option.splits)

text \<open>
  C8, as the claim has it, fails: a record of Aegislash with the ability Power Construct,
  which the validator of its format accepts unchanged, gets \<open>[Zygarde-Complete]\<close>, since
  the test of the ability comes before the table.
\<close>

theorem similarFormes_aegislash_counterexample:
  "accepted (fst (validatePSet example_lib Map.empty (example_format ''gen7balancedhackmons'')
       (example_pset ''Aegislash'' ''Power Construct'')))
   \<and> pset_out (fst (validatePSet example_lib Map.empty
         (example_format ''gen7balancedhackmons'')
         (example_pset ''Aegislash'' ''Power Construct'')))
       = example_pset ''Aegislash'' ''Power Construct''
   \<and> similarFormes example_lib (example_pset ''Aegislash'' ''Power Construct'')
        (Some (example_format ''gen7balancedhackmons''))
        (getSpecie example_lib example_gen ''Aegislash'')
        (getItem example_lib example_gen (item (example_pset ''Aegislash'' ''Power Construct'')))
      = Inr (Some [''Zygarde-Complete''])"
  by (simp add: Let_def getSpecie_def getItem_def example_gen_def example_species_def
        megaForme_def formeTable_def validatePSet_def getValidator_def validateWith_def
        example_format_def example_lib_def rename_crowned_def crowned_def example_pset_def
        similarFormes_def toMegaRayquaza_def toRayquaza_def)

text \<open>
  C8, amended. For a record whose species is Aegislash, looked up as the species named
  Aegislash, whose ability is not Power Construct and whose item, if any, is not a stone
  that mega-evolves Aegislash, the resolver returns exactly Aegislash-Blade,
  Aegislash-Shield and Aegislash-Both, in this order, with or without a format.
\<close>

theorem similarFormes_aegislash:
  "species pset = ''Aegislash'' \<Longrightarrow> specie_name specie = ''Aegislash'' \<Longrightarrow>
   ability pset \<noteq> ''Power Construct'' \<Longrightarrow>
   (case item0 of None \<Rightarrow> True | Some i \<Rightarrow> megaEvolves i \<noteq> Some ''Aegislash'') \<Longrightarrow>
   similarFormes lib pset format specie item0 =
     Inr (Some [''Aegislash-Blade'', ''Aegislash-Shield'', ''Aegislash-Both''])"
  by (auto simp: similarFormes_def toMegaRayquaza_other toRayquaza_def megaForme_def
        formeTable_def split: option.splits)

theorem similarFormes_aegislash_witness:
  "species (example_pset ''Aegislash'' ''Stance Change'') = ''Aegislash''
   \<and> specie_name (getSpecie example_lib example_gen ''Aegislash'') = ''Aegislash''
   \<and> ability (example_pset ''Aegislash'' ''Stance Change'') \<noteq> ''Power Construct''
   \<and> getItem example_lib example_gen [] = Some \<lparr>megaEvolves = None, megaStone = None\<rparr>
   \<and> similarFormes example_lib (example_pset ''Aegislash'' ''Stance Change'')
        (Some (example_format ''gen7ou'')) (getSpecie example_lib example_gen ''Aegislash'')
        (getItem example_lib example_gen [])
      = Inr (Some [''Aegislash-Blade'', ''Aegislash-Shield'', ''Aegislash-Both''])"
proof -
  have s: "species (example_pset ''Aegislash'' ''Stance Change'') = ''Aegislash''"
    by (simp add: example_pset_def)
  have n: "specie_name (getSpecie example_lib example_gen ''Aegislash'') = ''Aegislash''"
    by (simp add: getSpecie_def example_gen_def example_species_def)
  have a: "ability (example_pset ''Aegislash'' ''Stance Change'') \<noteq> ''Power Construct''"
    by (simp add: example_pset_def)
  have i: "getItem example_lib example_gen [] = Some \<lparr>megaEvolves = None, megaStone = None\<rparr>"
    by (simp add: getItem_def example_gen_def example_lib_def)
  have m: "(case getItem example_lib example_gen [] of None \<Rightarrow> True
            | Some i \<Rightarrow> megaEvolves i \<noteq> Some ''Aegislash'')"
    by (simp add: i)
  from similarFormes_aegislash [OF s n a m] s n a i show ?thesis by blast
qed

subsection \<open>The validator adapter\<close>

lemma calls_retry_evs:
  "calls (retry_evs v format pset invalid cs) =
     (if single_violation invalid ''has exactly 0 EVs - did you forget to EV it?''
      then cs @ [pset\<lparr>evs := (evs pset)\<lparr>hp := 1\<rparr>\<rparr>] else cs)"
  by (simp add: retry_evs_def Let_def split: option.splits)

lemma accepted_retry_evs:
  "single_violation invalid ''has exactly 0 EVs - did you forget to EV it?'' \<Longrightarrow>
   snd (v (pset\<lparr>evs := (evs pset)\<lparr>hp := 1\<rparr>\<rparr>)) = None \<Longrightarrow>
   accepted (retry_evs v format pset invalid cs)
   \<and> pset_out (retry_evs v format pset invalid cs) = fst (v (pset\<lparr>evs := (evs pset)\<lparr>hp := 1\<rparr>\<rparr>))"
  by (simp add: retry_evs_def Let_def)

lemma calls_retry_shiny:
  "calls (retry_shiny v format pset invalid cs) =
     (if single_violation invalid ''must be shiny'' then
        (case snd (v (pset\<lparr>shiny := Some True\<rparr>)) of
           None \<Rightarrow> cs @ [pset\<lparr>shiny := Some True\<rparr>]
         | Some invalid1 \<Rightarrow>
             calls (retry_evs v format (fst (v (pset\<lparr>shiny := Some True\<rparr>))) invalid1
                      (cs @ [pset\<lparr>shiny := Some True\<rparr>])))
      else calls (retry_evs v format pset invalid cs))"
  by (simp add: retry_shiny_def Let_def split: option.splits)

lemma validatePSet_invalid:
  "snd (fst (getValidator lib validators format) pset) = Some invalid \<Longrightarrow>
   fst (validatePSet lib validators format pset) =
     retry_shiny (fst (getValidator lib validators format)) format
       ((rename_crowned (species pset) (fst (fst (getValidator lib validators format) pset)))
          \<lparr>ability := ability pset\<rparr>)
       invalid [pset]"
  by (simp add: validatePSet_def validateWith_def Let_def)

text \<open>
  C5, as the claim has it, fails: the two corrections are not alternatives decided on
  the first list of violations. With a validator that first reports only that the set
  must be shiny and, once it is shiny, only that it has exactly 0 EVs, one call of the
  adapter makes both corrections: it hands the validator the set, then the shiny set,
  then the shiny set with the HP EV 1, and accepts.
\<close>

theorem validatePSet_both_corrections_counterexample:
  "snd (shiny_then_evs (example_pset ''Pikachu'' ''Static'')) = Some [''Pikachu must be shiny.'']
   \<and> single_violation [''Pikachu must be shiny.''] ''must be shiny''
   \<and> \<not> single_violation [''Pikachu must be shiny.''] ''has exactly 0 EVs''
   \<and> calls (fst (validatePSet (example_lib\<lparr>new_TeamValidator := (\<lambda>f. shiny_then_evs)\<rparr>) Map.empty
        (example_format ''gen7ou'') (example_pset ''Pikachu'' ''Static'')))
      = [example_pset ''Pikachu'' ''Static'',
         (example_pset ''Pikachu'' ''Static'')\<lparr>shiny := Some True\<rparr>,
         (example_pset ''Pikachu'' ''Static'')
           \<lparr>shiny := Some True, evs := (fillStats None 0)\<lparr>hp := 1\<rparr>\<rparr>]
   \<and> accepted (fst (validatePSet (example_lib\<lparr>new_TeamValidator := (\<lambda>f. shiny_then_evs)\<rparr>)
        Map.empty (example_format ''gen7ou'') (example_pset ''Pikachu'' ''Static'')))
   \<and> hp (evs (pset_out (fst (validatePSet
        (example_lib\<lparr>new_TeamValidator := (\<lambda>f. shiny_then_evs)\<rparr>) Map.empty
        (example_format ''gen7ou'') (example_pset ''Pikachu'' ''Static''))))) = 1
   \<and> hp (evs (example_pset ''Pikachu'' ''Static'')) = 0"
  by (simp add: validatePSet_def getValidator_def validateWith_def retry_shiny_def retry_evs_def
        Let_def single_violation_def shiny_then_evs_def example_pset_def example_lib_def
        example_format_def rename_crowned_def crowned_def fillStats_def)

text \<open>
  C5, amended. Let the first validation report \<open>invalid\<close>, and let \<open>p\<close> be the set after
  it, with the ability restored. When \<open>invalid\<close> is one violation containing ``must be
  shiny'', the adapter sets \<open>shiny\<close> and validates again, once, and accepts if that
  passes. Then, when the list of violations it holds at that point (the first one, or
  that of the shiny retry if it was made and did not pass) is one violation containing
  ``has exactly 0 EVs - did you forget to EV it?'', it sets the HP EV to 1 and validates
  again, once, and accepts if that passes. Both corrections can be made in one call, each
  at most once: the validator is called at most three times.
\<close>

theorem validatePSet_corrections:
  assumes "v = fst (getValidator lib validators format)"
    and "snd (v pset) = Some invalid"
    and "p = (rename_crowned (species pset) (fst (v pset)))\<lparr>ability := ability pset\<rparr>"
    and "r = fst (validatePSet lib validators format pset)"
  shows
    "(single_violation invalid ''must be shiny'' \<longrightarrow>
        take 2 (calls r) = [pset, p\<lparr>shiny := Some True\<rparr>]
        \<and> (snd (v (p\<lparr>shiny := Some True\<rparr>)) = None \<longrightarrow>
              accepted r \<and> pset_out r = fst (v (p\<lparr>shiny := Some True\<rparr>))
              \<and> calls r = [pset, p\<lparr>shiny := Some True\<rparr>])
        \<and> (\<forall>invalid1 q.
              snd (v (p\<lparr>shiny := Some True\<rparr>)) = Some invalid1
              \<and> q = fst (v (p\<lparr>shiny := Some True\<rparr>))
              \<and> single_violation invalid1 ''has exactly 0 EVs - did you forget to EV it?'' \<longrightarrow>
              calls r = [pset, p\<lparr>shiny := Some True\<rparr>, q\<lparr>evs := (evs q)\<lparr>hp := 1\<rparr>\<rparr>]
              \<and> (snd (v (q\<lparr>evs := (evs q)\<lparr>hp := 1\<rparr>\<rparr>)) = None \<longrightarrow>
                    accepted r \<and> pset_out r = fst (v (q\<lparr>evs := (evs q)\<lparr>hp := 1\<rparr>\<rparr>)))))
     \<and> (\<not> single_violation invalid ''must be shiny''
          \<and> single_violation invalid ''has exactly 0 EVs - did you forget to EV it?'' \<longrightarrow>
          calls r = [pset, p\<lparr>evs := (evs p)\<lparr>hp := 1\<rparr>\<rparr>]
          \<and> (snd (v (p\<lparr>evs := (evs p)\<lparr>hp := 1\<rparr>\<rparr>)) = None \<longrightarrow>
                accepted r \<and> pset_out r = fst (v (p\<lparr>evs := (evs p)\<lparr>hp := 1\<rparr>\<rparr>))))
     \<and> (\<not> single_violation invalid ''must be shiny''
          \<and> \<not> single_violation invalid ''has exactly 0 EVs - did you forget to EV it?'' \<longrightarrow>
          calls r = [pset] \<and> pset_out r = p)
     \<and> length (calls r) \<le> 3"
proof -
  have r: "r = retry_shiny v format p invalid [pset]"
    using assms validatePSet_invalid [of lib validators format pset invalid] by simp
  have shiny: "single_violation invalid ''must be shiny'' \<longrightarrow>
        take 2 (calls r) = [pset, p\<lparr>shiny := Some True\<rparr>]
        \<and> (snd (v (p\<lparr>shiny := Some True\<rparr>)) = None \<longrightarrow>
              accepted r \<and> pset_out r = fst (v (p\<lparr>shiny := Some True\<rparr>))
              \<and> calls r = [pset, p\<lparr>shiny := Some True\<rparr>])
        \<and> (\<forall>invalid1 q.
              snd (v (p\<lparr>shiny := Some True\<rparr>)) = Some invalid1
              \<and> q = fst (v (p\<lparr>shiny := Some True\<rparr>))
              \<and> single_violation invalid1 ''has exactly 0 EVs - did you forget to EV it?'' \<longrightarrow>
              calls r = [pset, p\<lparr>shiny := Some True\<rparr>, q\<lparr>evs := (evs q)\<lparr>hp := 1\<rparr>\<rparr>]
              \<and> (snd (v (q\<lparr>evs := (evs q)\<lparr>hp := 1\<rparr>\<rparr>)) = None \<longrightarrow>
                    accepted r \<and> pset_out r = fst (v (q\<lparr>evs := (evs q)\<lparr>hp := 1\<rparr>\<rparr>))))"
    unfolding r
    by (auto simp: calls_retry_shiny calls_retry_evs accepted_retry_evs retry_shiny_def Let_def
          split: option.splits)
  have evs: "\<not> single_violation invalid ''must be shiny''
          \<and> single_violation invalid ''has exactly 0 EVs - did you forget to EV it?'' \<longrightarrow>
          calls r = [pset, p\<lparr>evs := (evs p)\<lparr>hp := 1\<rparr>\<rparr>]
          \<and> (snd (v (p\<lparr>evs := (evs p)\<lparr>hp := 1\<rparr>\<rparr>)) = None \<longrightarrow>
                accepted r \<and> pset_out r = fst (v (p\<lparr>evs := (evs p)\<lparr>hp := 1\<rparr>\<rparr>)))"
    unfolding r
    by (auto simp: calls_retry_shiny calls_retry_evs accepted_retry_evs retry_shiny_def)
  have neither: "\<not> single_violation invalid ''must be shiny''
          \<and> \<not> single_violation invalid ''has exactly 0 EVs - did you forget to EV it?'' \<longrightarrow>
          calls r = [pset] \<and> pset_out r = p"
    unfolding r by (simp add: retry_shiny_def retry_evs_def)
  have "length (calls r) \<le> 3"
    unfolding r by (simp add: calls_retry_shiny calls_retry_evs split: option.splits)
  with shiny evs neither show ?thesis by blast
qed

theorem validatePSet_corrections_witness:
  "snd (shiny_then_evs (example_pset ''Pikachu'' ''Static'')) = Some [''Pikachu must be shiny.'']
   \<and> single_violation [''Pikachu must be shiny.''] ''must be shiny''
   \<and> take 2 (calls (fst (validatePSet (example_lib\<lparr>new_TeamValidator := (\<lambda>f. shiny_then_evs)\<rparr>)
         Map.empty (example_format ''gen7ou'') (example_pset ''Pikachu'' ''Static''))))
      = [example_pset ''Pikachu'' ''Static'',
         (example_pset ''Pikachu'' ''Static'')\<lparr>shiny := Some True\<rparr>]
   \<and> length (calls (fst (validatePSet (example_lib\<lparr>new_TeamValidator := (\<lambda>f. shiny_then_evs)\<rparr>)
         Map.empty (example_format ''gen7ou'') (example_pset ''Pikachu'' ''Static'')))) \<le> 3"
proof -
  let ?lib = "example_lib\<lparr>new_TeamValidator := (\<lambda>f. shiny_then_evs)\<rparr>"
  let ?f = "example_format ''gen7ou''"
  let ?pset = "example_pset ''Pikachu'' ''Static''"
  have v: "shiny_then_evs = fst (getValidator ?lib Map.empty ?f)"
    by (simp add: getValidator_def)
  have i: "snd (shiny_then_evs ?pset) = Some [''Pikachu must be shiny.'']"
    by (simp add: shiny_then_evs_def example_pset_def)
  have s: "single_violation [''Pikachu must be shiny.''] ''must be shiny''"
    by (simp add: single_violation_def)
  have p: "?pset = (rename_crowned (species ?pset) (fst (shiny_then_evs ?pset)))
                     \<lparr>ability := ability ?pset\<rparr>"
    by (simp add: shiny_then_evs_def example_pset_def rename_crowned_def crowned_def)
  from validatePSet_corrections [OF v i p refl] s i show ?thesis by blast
qed

text \<open>
  C9 fails where the adapter retries: the ability is put back after the first validation
  only. With a validator that overwrites the ability on every call and wants the set
  shiny, the adapter accepts the set after the shiny retry and returns it with the
  validator's ability, not the one it had at entry.
\<close>

theorem validatePSet_ability_after_retry:
  "ability (example_pset ''Rayquaza'' ''Air Lock'') = ''Air Lock''
   \<and> accepted (fst (validatePSet (example_lib\<lparr>new_TeamValidator := (\<lambda>f. mega_shiny)\<rparr>) Map.empty
        (example_format ''gen7ubers'') (example_pset ''Rayquaza'' ''Air Lock'')))
   \<and> ability (pset_out (fst (validatePSet (example_lib\<lparr>new_TeamValidator := (\<lambda>f. mega_shiny)\<rparr>)
        Map.empty (example_format ''gen7ubers'') (example_pset ''Rayquaza'' ''Air Lock''))))
      = ''Delta Stream''
   \<and> length (calls (fst (validatePSet (example_lib\<lparr>new_TeamValidator := (\<lambda>f. mega_shiny)\<rparr>)
        Map.empty (example_format ''gen7ubers'') (example_pset ''Rayquaza'' ''Air Lock'')))) = 2"
  by (simp add: validatePSet_def getValidator_def validateWith_def retry_shiny_def retry_evs_def
        Let_def single_violation_def mega_shiny_def example_pset_def example_lib_def
        example_format_def rename_crowned_def crowned_def)

text \<open>
  Without a retry the ability is the one at entry: when the first validation passes, and
  when it fails with a list of violations that triggers neither correction.
\<close>

lemma ability_rename_crowned: "ability (rename_crowned s pset) = ability pset"
  by (simp add: rename_crowned_def Let_def split: option.splits)

lemma validatePSet_ability_without_retry:
  assumes "v = fst (getValidator lib validators format)"
    and "snd (v pset) = None
         \<or> (\<exists>invalid. snd (v pset) = Some invalid
              \<and> \<not> single_violation invalid ''must be shiny''
              \<and> \<not> single_violation invalid ''has exactly 0 EVs - did you forget to EV it?'')"
  shows "ability (pset_out (fst (validatePSet lib validators format pset))) = ability pset"
  using assms
  by (auto simp: validatePSet_def validateWith_def Let_def retry_shiny_def retry_evs_def
        ability_rename_crowned)

subsection \<open>The importer: what a step leaves alone\<close>

lemma fold_err_invariant:
  assumes "fold_err f xs st = Inr st'"
    and "P st"
    and "\<And>x s s'. P s \<Longrightarrow> f x s = Inr s' \<Longrightarrow> P s'"
  shows "P st'"
  using assms(1,2)
proof (induction xs arbitrary: st)
  case Nil
  then show ?case by simp
next
  case (Cons x xs)
  then obtain s where s: "f x st = Inr s" and rest: "fold_err f xs s = Inr st'"
    by (auto split: sum.splits)
  from assms(3) [OF Cons.prems(2) s] have "P s" .
  from Cons.IH [OF rest this] show ?case .
qed

lemma fold_err_invariant_in:
  assumes "fold_err f xs st = Inr st'"
    and "P st"
    and "\<And>x s s'. x \<in> set xs \<Longrightarrow> P s \<Longrightarrow> f x s = Inr s' \<Longrightarrow> P s'"
  shows "P st'"
  using assms
proof (induction xs arbitrary: st)
  case Nil
  then show ?case by simp
next
  case (Cons x xs)
  from Cons.prems(1) obtain s where s: "f x st = Inr s" and rest: "fold_err f xs s = Inr st'"
    by (auto split: sum.splits)
  have "P s" by (rule Cons.prems(3) [OF _ Cons.prems(2) s]) simp
  moreover have "P b" if "y \<in> set xs" "P a" "f y a = Inr b" for y a b
    by (rule Cons.prems(3) [OF _ that(2,3)]) (simp add: that(1))
  ultimately show ?case by (rule Cons.IH [OF rest])
qed



lemma calcSets_store:
  "calcSets (store x setName calcSet st) X =
     (if X = x
      then Some ((case calcSets st x of None \<Rightarrow> Map.empty | Some sets \<Rightarrow> sets)(setName \<mapsto> calcSet))
      else calcSets st X)"
  by (simp add: store_def)

lemma calcSet_at_store:
  "calcSet_at (calcSets (store x setName calcSet st)) X L =
     (if X = x \<and> L = setName then Some calcSet else calcSet_at (calcSets st) X L)"
  by (simp add: store_def calcSet_at_def split: option.splits)

lemma statsIgnore_store: "statsIgnore (store x setName calcSet st) = statsIgnore st"
  by (simp add: store_def)

lemma calcSets_ignore: "calcSets (ignore x formatID st) = calcSets st"
  by (simp add: ignore_def)

lemma ignored_ignore:
  "ignored (statsIgnore (ignore x formatID st)) X F \<longleftrightarrow>
     (X = x \<and> F = formatID) \<or> ignored (statsIgnore st) X F"
  by (auto simp: ignore_def ignored_def split: option.splits)

lemma calcSets_validated: "calcSets (snd (validated lib format pset st)) = calcSets st"
  by (simp add: validated_def split: option.splits)

lemma statsIgnore_validated: "statsIgnore (snd (validated lib format pset st)) = statsIgnore st"
  by (simp add: validated_def split: option.splits)

subsection \<open>The second pass and the identities it must skip\<close>

text \<open>
  A bucket of a covered species is left at the first test of the loop, before anything is
  built, validated or stored: the state is the same afterwards. So is a covered forme in
  the loop over the targets.
\<close>

lemma importUsage_skips:
  "ignored (statsIgnore st) (fst entry) F \<Longrightarrow>
   importUsage lib gen F format formatName threshold entry st = Inr st"
  by (simp add: importUsage_def)

lemma copyUsage_skips:
  "ignored (statsIgnore st) forme F \<Longrightarrow>
   copyUsage lib gen F setName calcSet item0 forme st = Inr st"
  by (simp add: copyUsage_def)

lemma copyUsage_frame:
  assumes "ignored (statsIgnore st) X F"
    and "copyUsage lib gen F setName calcSet item0 forme st = Inr st'"
  shows "calcSets st' X = calcSets st X \<and> statsIgnore st' = statsIgnore st"
proof (cases "ignored (statsIgnore st) forme F")
  case True
  with assms(2) show ?thesis by (simp add: copyUsage_def)
next
  case False
  with assms(1) have "X \<noteq> forme" by auto
  with False assms(2) show ?thesis
    by (auto simp: copyUsage_def calcSets_store statsIgnore_store split: option.splits if_splits)
qed

lemma copyUsage_loop_frame:
  assumes "ignored (statsIgnore st) X F"
    and "fold_err (copyUsage lib gen F setName calcSet item0) copyTo st = Inr st'"
  shows "calcSets st' X = calcSets st X \<and> statsIgnore st' = statsIgnore st"
proof -
  let ?P = "\<lambda>s. calcSets s X = calcSets st X \<and> statsIgnore s = statsIgnore st"
  have "?P st'"
  proof (rule fold_err_invariant [OF assms(2), where P = ?P])
    show "?P st" by simp
  next
    fix x s s'
    assume s: "?P s" and step: "copyUsage lib gen F setName calcSet item0 x s = Inr s'"
    from s assms(1) have "ignored (statsIgnore s) X F" by simp
    from copyUsage_frame [OF this step] s show "?P s'" by simp
  qed
  then show ?thesis .
qed

lemma importUsage_frame:
  assumes cov: "ignored (statsIgnore st) X F"
    and run: "importUsage lib gen F format formatName threshold entry st = Inr st'"
  shows "calcSets st' X = calcSets st X \<and> statsIgnore st' = statsIgnore st"
proof (cases "ignored (statsIgnore st) (fst entry) F
              \<or> less_number (usage_weighted (snd entry)) threshold")
  case True
  with run have "st' = st" by (auto simp: importUsage_def split: if_splits)
  then show ?thesis by simp
next
  case False
  with cov have ne: "X \<noteq> fst entry" by auto
  obtain pset0 where
    pset0: "usageToPset lib gen F (specie_name (getSpecie lib gen (fst entry))) (snd entry)
              = Inr pset0"
    using run False by (auto simp: importUsage_def Let_def split: sum.splits)
  let ?checked = "validated lib format pset0 st"
  let ?pset = "pset_out (fst ?checked)"
  let ?calcSet = "psetToCalcSet (num gen) ?pset"
  let ?setName = "untagged formatName @ '' Showdown Usage''"
  let ?st1 = "store (fst entry) ?setName ?calcSet (snd ?checked)"
  show ?thesis
  proof (cases "accepted (fst ?checked)")
    case rejected: False
    with run False pset0 have "st' = snd ?checked"
      by (simp add: importUsage_def Let_def)
    then show ?thesis by (simp add: calcSets_validated statsIgnore_validated)
  next
    case ok: True
    have st1: "calcSets ?st1 X = calcSets st X \<and> statsIgnore ?st1 = statsIgnore st"
      using ne by (simp add: calcSets_store statsIgnore_store calcSets_validated
            statsIgnore_validated)
    then have cov1: "ignored (statsIgnore ?st1) X F" using cov by simp
    show ?thesis
    proof (cases "similarFormes lib ?pset format (getSpecie lib gen (fst entry))
                    (getItem lib gen (item ?pset))")
      case (Inl e)
      with run False pset0 ok show ?thesis by (simp add: importUsage_def Let_def)
    next
      case (Inr copy)
      show ?thesis
      proof (cases copy)
        case None
        with Inr run False pset0 ok have "st' = ?st1" by (simp add: importUsage_def Let_def)
        with st1 show ?thesis by simp
      next
        case (Some copyTo)
        with Inr run False pset0 ok
        have "fold_err (copyUsage lib gen F ?setName ?calcSet (getItem lib gen (item ?pset)))
                copyTo ?st1 = Inr st'"
          by (simp add: importUsage_def Let_def)
        from copyUsage_loop_frame [OF cov1 this] st1 show ?thesis by simp
      qed
    qed
  qed
qed

lemma importStats_frame:
  assumes cov: "ignored (statsIgnore st) X F"
    and run: "importStats lib gen fetchStats F st = Inr st'"
  shows "calcSets st' X = calcSets st X \<and> statsIgnore st' = statsIgnore st"
proof (cases "(case fst (getFormat lib F) of None \<Rightarrow> False | Some f \<Rightarrow> \<not> format_exists f)
              \<or> fetchStats F = None")
  case True
  with run have "st' = st" by (auto simp: importStats_def Let_def split: if_splits)
  then show ?thesis by simp
next
  case False
  then obtain stats where stats: "fetchStats F = Some stats" by auto
  let ?P = "\<lambda>s. calcSets s X = calcSets st X \<and> statsIgnore s = statsIgnore st"
  from run False stats
  have loop: "fold_err (importUsage lib gen F (fst (getFormat lib F)) (snd (getFormat lib F))
                 (getUsageThreshold F (battles stats))) (pokemon stats) st = Inr st'"
    by (simp add: importStats_def Let_def)
  show ?thesis
  proof (rule fold_err_invariant [OF loop, where P = ?P])
    show "?P st" by simp
  next
    fix x s s'
    assume s: "?P s"
      and step: "importUsage lib gen F (fst (getFormat lib F)) (snd (getFormat lib F))
                   (getUsageThreshold F (battles stats)) x s = Inr s'"
    from s cov have "ignored (statsIgnore s) X F" by simp
    from importUsage_frame [OF this step] s show "?P s'" by simp
  qed
qed

text \<open>
  What the second pass writes: a step of it leaves \<^verbatim>\<open>statsIgnore\<close> as it is, and the only
  sets it stores are stored under the usage name of the format, for identities that are
  not covered for the format.
\<close>

lemma copyUsage_writes:
  assumes "copyUsage lib gen F setName calcSet item0 forme st = Inr st'"
  shows "statsIgnore st' = statsIgnore st
         \<and> (calcSet_at (calcSets st') X L \<noteq> calcSet_at (calcSets st) X L
              \<longrightarrow> \<not> ignored (statsIgnore st) X F \<and> L = setName)"
proof (cases "ignored (statsIgnore st) forme F")
  case True
  with assms show ?thesis by (simp add: copyUsage_def)
next
  case False
  with assms show ?thesis
    by (auto simp: copyUsage_def calcSet_at_store statsIgnore_store
          split: option.splits if_splits)
qed

lemma copyUsage_loop_writes:
  assumes "fold_err (copyUsage lib gen F setName calcSet item0) copyTo st = Inr st'"
  shows "statsIgnore st' = statsIgnore st
         \<and> (calcSet_at (calcSets st') X L \<noteq> calcSet_at (calcSets st) X L
              \<longrightarrow> \<not> ignored (statsIgnore st) X F \<and> L = setName)"
proof -
  let ?P = "\<lambda>s. statsIgnore s = statsIgnore st
                \<and> (calcSet_at (calcSets s) X L \<noteq> calcSet_at (calcSets st) X L
                     \<longrightarrow> \<not> ignored (statsIgnore st) X F \<and> L = setName)"
  have "?P st'"
  proof (rule fold_err_invariant [OF assms, where P = ?P])
    show "?P st" by simp
  next
    fix x s s'
    assume s: "?P s" and step: "copyUsage lib gen F setName calcSet item0 x s = Inr s'"
    from copyUsage_writes [OF step, of X L] s show "?P s'" by auto
  qed
  then show ?thesis .
qed

lemma importUsage_writes:
  assumes run: "importUsage lib gen F format formatName threshold entry st = Inr st'"
  shows "statsIgnore st' = statsIgnore st
         \<and> (calcSet_at (calcSets st') X L \<noteq> calcSet_at (calcSets st) X L
              \<longrightarrow> \<not> ignored (statsIgnore st) X F
                  \<and> L = untagged formatName @ '' Showdown Usage'')"
proof (cases "ignored (statsIgnore st) (fst entry) F
              \<or> less_number (usage_weighted (snd entry)) threshold")
  case True
  with run have "st' = st" by (auto simp: importUsage_def split: if_splits)
  then show ?thesis by simp
next
  case False
  obtain pset0 where
    pset0: "usageToPset lib gen F (specie_name (getSpecie lib gen (fst entry))) (snd entry)
              = Inr pset0"
    using run False by (auto simp: importUsage_def Let_def split: sum.splits)
  let ?checked = "validated lib format pset0 st"
  let ?pset = "pset_out (fst ?checked)"
  let ?calcSet = "psetToCalcSet (num gen) ?pset"
  let ?setName = "untagged formatName @ '' Showdown Usage''"
  let ?st1 = "store (fst entry) ?setName ?calcSet (snd ?checked)"
  show ?thesis
  proof (cases "accepted (fst ?checked)")
    case rejected: False
    with run False pset0 have "st' = snd ?checked"
      by (simp add: importUsage_def Let_def)
    then show ?thesis by (simp add: calcSets_validated statsIgnore_validated)
  next
    case ok: True
    have si1: "statsIgnore ?st1 = statsIgnore st"
      by (simp add: statsIgnore_store statsIgnore_validated)
    have at1: "calcSet_at (calcSets ?st1) X L \<noteq> calcSet_at (calcSets st) X L
                 \<longrightarrow> \<not> ignored (statsIgnore st) X F \<and> L = ?setName"
      using False by (auto simp: calcSet_at_store calcSets_validated)
    show ?thesis
    proof (cases "similarFormes lib ?pset format (getSpecie lib gen (fst entry))
                    (getItem lib gen (item ?pset))")
      case (Inl e)
      with run False pset0 ok show ?thesis by (simp add: importUsage_def Let_def)
    next
      case (Inr copy)
      show ?thesis
      proof (cases copy)
        case None
        with Inr run False pset0 ok have "st' = ?st1" by (simp add: importUsage_def Let_def)
        with si1 at1 show ?thesis by simp
      next
        case (Some copyTo)
        with Inr run False pset0 ok
        have "fold_err (copyUsage lib gen F ?setName ?calcSet (getItem lib gen (item ?pset)))
                copyTo ?st1 = Inr st'"
          by (simp add: importUsage_def Let_def)
        from copyUsage_loop_writes [OF this, of X L] si1 at1 show ?thesis by auto
      qed
    qed
  qed
qed

lemma importStats_writes:
  assumes run: "importStats lib gen fetchStats F st = Inr st'"
  shows "statsIgnore st' = statsIgnore st
         \<and> (calcSet_at (calcSets st') X L \<noteq> calcSet_at (calcSets st) X L
              \<longrightarrow> \<not> ignored (statsIgnore st) X F \<and> L = usageName lib F)"
proof (cases "(case fst (getFormat lib F) of None \<Rightarrow> False | Some f \<Rightarrow> \<not> format_exists f)
              \<or> fetchStats F = None")
  case True
  with run have "st' = st" by (auto simp: importStats_def Let_def split: if_splits)
  then show ?thesis by simp
next
  case False
  then obtain stats where stats: "fetchStats F = Some stats" by auto
  let ?P = "\<lambda>s. statsIgnore s = statsIgnore st
                \<and> (calcSet_at (calcSets s) X L \<noteq> calcSet_at (calcSets st) X L
                     \<longrightarrow> \<not> ignored (statsIgnore st) X F \<and> L = usageName lib F)"
  from run False stats
  have loop: "fold_err (importUsage lib gen F (fst (getFormat lib F)) (snd (getFormat lib F))
                 (getUsageThreshold F (battles stats))) (pokemon stats) st = Inr st'"
    by (simp add: importStats_def Let_def)
  show ?thesis
  proof (rule fold_err_invariant [OF loop, where P = ?P])
    show "?P st" by simp
  next
    fix x s s'
    assume s: "?P s"
      and step: "importUsage lib gen F (fst (getFormat lib F)) (snd (getFormat lib F))
                   (getUsageThreshold F (battles stats)) x s = Inr s'"
    from importUsage_writes [OF step, of X L] s show "?P s'"
      by (auto simp: usageName_def)
  qed
qed

lemma importStats_statsIgnore:
  assumes "importStats lib gen fetchStats F st = Inr st'"
  shows "statsIgnore st' = statsIgnore st"
  using importStats_writes [OF assms] by simp

lemma importStats_loop_keeps:
  assumes "fold_err (importStats lib gen fetchStats) fids st = Inr st'"
  shows "statsIgnore st' = statsIgnore st"
proof (rule fold_err_invariant [OF assms, where P = "\<lambda>s. statsIgnore s = statsIgnore st"])
  show "statsIgnore st = statsIgnore st" by (rule refl)
next
  fix x s s'
  assume s: "statsIgnore s = statsIgnore st"
    and step: "importStats lib gen fetchStats x s = Inr s'"
  from step have "statsIgnore s' = statsIgnore s" by (rule importStats_statsIgnore)
  with s show "statsIgnore s' = statsIgnore st" by simp
qed

lemma importStats_loop_writes:
  assumes run: "fold_err (importStats lib gen fetchStats) fids st = Inr st'"
    and changed: "calcSet_at (calcSets st') X L \<noteq> calcSet_at (calcSets st) X L"
  shows "\<exists>F \<in> set fids. \<not> ignored (statsIgnore st) X F \<and> L = usageName lib F"
proof -
  let ?P = "\<lambda>s. statsIgnore s = statsIgnore st
                \<and> (calcSet_at (calcSets s) X L \<noteq> calcSet_at (calcSets st) X L
                     \<longrightarrow> (\<exists>F \<in> set fids. \<not> ignored (statsIgnore st) X F
                                          \<and> L = usageName lib F))"
  have "?P st'"
  proof (rule fold_err_invariant_in [OF run, where P = ?P])
    show "?P st" by simp
  next
    fix F s s'
    assume F: "F \<in> set fids" and s: "?P s"
      and step: "importStats lib gen fetchStats F s = Inr s'"
    from importStats_writes [OF step, of X L] s F show "?P s'" by auto
  qed
  with changed show ?thesis by blast
qed

subsection \<open>The first pass and the identities it covers\<close>

lemma calcSets_copyDex:
  "X \<noteq> forme \<Longrightarrow> calcSets (copyDex lib gen F setName calcSet forme st) X = calcSets st X"
  by (simp add: copyDex_def Let_def calcSets_store calcSets_ignore)

lemma ignored_copyDex:
  "ignored (statsIgnore (copyDex lib gen F setName calcSet forme st)) X F' \<longleftrightarrow>
     (X = forme \<and> F' = F) \<or> ignored (statsIgnore st) X F'"
  by (simp add: copyDex_def Let_def statsIgnore_store ignored_ignore)

lemma calcSets_copyDex_loop:
  "X \<notin> set copyTo \<Longrightarrow>
   calcSets (fold (copyDex lib gen F setName calcSet) copyTo st) X = calcSets st X"
  by (induction copyTo arbitrary: st) (simp_all add: calcSets_copyDex)

lemma ignored_copyDex_loop:
  "ignored (statsIgnore (fold (copyDex lib gen F setName calcSet) copyTo st)) X F' \<longleftrightarrow>
     (X \<in> set copyTo \<and> F' = F) \<or> ignored (statsIgnore st) X F'"
  by (induction copyTo arbitrary: st) (auto simp: ignored_copyDex)

lemma importDexSet_covers:
  assumes run: "importDexSet lib gen specieName F format formatName specie entry st = Inr st'"
  shows "(calcSets st' X \<noteq> calcSets st X \<longrightarrow> ignored (statsIgnore st') X F)
         \<and> (ignored (statsIgnore st) X F' \<longrightarrow> ignored (statsIgnore st') X F')"
proof -
  obtain pset0 where pset0: "dexToPset gen specie (snd entry) = Inr pset0"
    using run by (auto simp: importDexSet_def split: sum.splits)
  let ?checked = "validated lib format pset0 st"
  let ?pset = "pset_out (fst ?checked)"
  let ?calcSet = "psetToCalcSet (num gen) ?pset"
  let ?setName = "untagged formatName @ '' '' @ fst entry"
  let ?st1 = "ignore specieName F (store specieName ?setName ?calcSet (snd ?checked))"
  have changed1: "X = specieName" if "calcSets ?st1 X \<noteq> calcSets st X"
    using that by (simp add: calcSets_ignore calcSets_store calcSets_validated split: if_splits)
  have ignored1: "ignored (statsIgnore ?st1) X G \<longleftrightarrow>
                    (X = specieName \<and> G = F) \<or> ignored (statsIgnore st) X G" for G
    by (simp add: ignored_ignore statsIgnore_store statsIgnore_validated)
  show ?thesis
  proof (cases "accepted (fst ?checked)")
    case False
    with run pset0 have "st' = snd ?checked" by (simp add: importDexSet_def Let_def)
    then show ?thesis by (simp add: calcSets_validated statsIgnore_validated)
  next
    case True
    show ?thesis
    proof (cases "similarFormes lib ?pset format specie (getItem lib gen (item ?pset))")
      case (Inl e)
      with run pset0 True show ?thesis by (simp add: importDexSet_def Let_def)
    next
      case (Inr copy)
      show ?thesis
      proof (cases copy)
        case None
        with Inr run pset0 True have st': "st' = ?st1" by (simp add: importDexSet_def Let_def)
        show ?thesis
          unfolding st' using changed1 ignored1 by blast
      next
        case (Some copyTo)
        with Inr run pset0 True
        have st': "st' = fold (copyDex lib gen F ?setName ?calcSet) copyTo ?st1"
          by (simp add: importDexSet_def Let_def)
        have same: "calcSets st' X = calcSets ?st1 X" if "X \<notin> set copyTo"
          using that unfolding st' by (rule calcSets_copyDex_loop)
        have ignored2: "ignored (statsIgnore st') X G \<longleftrightarrow>
                          (X \<in> set copyTo \<and> G = F) \<or> ignored (statsIgnore ?st1) X G" for G
          unfolding st' by (rule ignored_copyDex_loop)
        have "ignored (statsIgnore st') X F" if "calcSets st' X \<noteq> calcSets st X"
        proof (cases "X \<in> set copyTo")
          case True
          with ignored2 [of F] show ?thesis by blast
        next
          case False
          with same that have "calcSets ?st1 X \<noteq> calcSets st X" by simp
          then have "X = specieName" by (rule changed1)
          with ignored2 [of F] ignored1 [of F] show ?thesis by blast
        qed
        moreover have "ignored (statsIgnore st') X F'" if "ignored (statsIgnore st) X F'"
          using that ignored2 [of F'] ignored1 [of F'] by blast
        ultimately show ?thesis by blast
      qed
    qed
  qed
qed

lemma importDexSet_loop_keeps:
  assumes "fold_err (importDexSet lib gen specieName F format formatName specie) sets st = Inr st'"
    and "ignored (statsIgnore st) X F'"
  shows "ignored (statsIgnore st') X F'"
proof (rule fold_err_invariant [OF assms(1), where P = "\<lambda>s. ignored (statsIgnore s) X F'"])
  show "ignored (statsIgnore st) X F'" by (rule assms(2))
next
  fix x s s'
  assume "ignored (statsIgnore s) X F'"
    and "importDexSet lib gen specieName F format formatName specie x s = Inr s'"
  with importDexSet_covers [of lib gen specieName F format formatName specie x s s' X F']
  show "ignored (statsIgnore s') X F'" by blast
qed

lemma importDexFormat_keeps:
  assumes "importDexFormat lib gen specieName entry st = Inr st'"
    and "ignored (statsIgnore st) X F'"
  shows "ignored (statsIgnore st') X F'"
proof (cases "case fst (getFormat lib (''gen'' @ string_of_nat (num gen) @ fst entry)) of
                None \<Rightarrow> False | Some f \<Rightarrow> \<not> format_exists f")
  case True
  have "st' = st"
    using assms(1) True unfolding importDexFormat_def Let_def by simp
  with assms(2) show ?thesis by simp
next
  case False
  let ?F = "''gen'' @ string_of_nat (num gen) @ fst entry"
  let ?st = "st\<lparr>formatIDs := (if ?F \<in> set (formatIDs st) then formatIDs st
                                 else formatIDs st @ [?F])\<rparr>"
  have "fold_err (importDexSet lib gen specieName ?F (fst (getFormat lib ?F))
                    (snd (getFormat lib ?F)) (getSpecie lib gen specieName))
          (snd entry) ?st = Inr st'"
    using assms(1) False unfolding importDexFormat_def Let_def by (simp only: if_False)
  moreover from assms(2) have "ignored (statsIgnore ?st) X F'"
    by simp
  ultimately show ?thesis by (rule importDexSet_loop_keeps)
qed

lemma importDexFormat_loop_keeps:
  assumes "fold_err (importDexFormat lib gen specieName) formats st = Inr st'"
    and "ignored (statsIgnore st) X F'"
  shows "ignored (statsIgnore st') X F'"
proof (rule fold_err_invariant [OF assms(1), where P = "\<lambda>s. ignored (statsIgnore s) X F'"])
  show "ignored (statsIgnore st) X F'" by (rule assms(2))
next
  fix x s s'
  assume "ignored (statsIgnore s) X F'" and "importDexFormat lib gen specieName x s = Inr s'"
  then show "ignored (statsIgnore s') X F'" by (rule importDexFormat_keeps [rotated])
qed

lemma importDexSets_keeps:
  assumes "importDexSets lib gen dexSets st = Inr st'"
    and "ignored (statsIgnore st) X F'"
  shows "ignored (statsIgnore st') X F'"
proof -
  from assms(1)
  have run: "fold_err (\<lambda>entry. fold_err (importDexFormat lib gen (fst entry)) (snd entry))
               dexSets st = Inr st'"
    by (simp add: importDexSets_def)
  show ?thesis
  proof (rule fold_err_invariant [OF run, where P = "\<lambda>s. ignored (statsIgnore s) X F'"])
    show "ignored (statsIgnore st) X F'" by (rule assms(2))
  next
    fix x s s'
    assume "ignored (statsIgnore s) X F'"
      and "fold_err (importDexFormat lib gen (fst x)) (snd x) s = Inr s'"
    then show "ignored (statsIgnore s') X F'" by (rule importDexFormat_loop_keeps [rotated])
  qed
qed

text \<open>
  An accepted curated set is stored for its species and for every forme the resolver
  names, and all of these are covered for the format afterwards.
\<close>

lemma calcSets_copyDex_loop_stored:
  "calcSets st X \<noteq> None \<or> X \<in> set copyTo \<Longrightarrow>
   calcSets (fold (copyDex lib gen F setName calcSet) copyTo st) X \<noteq> None"
proof (induction copyTo arbitrary: st)
  case Nil
  then show ?case by simp
next
  case (Cons forme copyTo)
  have "calcSets (copyDex lib gen F setName calcSet forme st) X \<noteq> None
        \<or> X \<in> set copyTo"
    using Cons.prems
    by (cases "X = forme")
       (auto simp: copyDex_def Let_def calcSets_store calcSets_ignore)
  from Cons.IH [OF this] show ?case by simp
qed

lemma importDexSet_accepted:
  assumes run: "importDexSet lib gen specieName F format formatName specie entry st = Inr st'"
    and pset0: "dexToPset gen specie (snd entry) = Inr pset0"
    and ok: "accepted (fst (validated lib format pset0 st))"
    and copy: "similarFormes lib (pset_out (fst (validated lib format pset0 st))) format specie
                 (getItem lib gen (item (pset_out (fst (validated lib format pset0 st)))))
               = Inr copy"
    and X: "X = specieName \<or> (\<exists>copyTo. copy = Some copyTo \<and> X \<in> set copyTo)"
  shows "ignored (statsIgnore st') X F \<and> calcSets st' X \<noteq> None"
proof -
  let ?checked = "validated lib format pset0 st"
  let ?pset = "pset_out (fst ?checked)"
  let ?calcSet = "psetToCalcSet (num gen) ?pset"
  let ?setName = "untagged formatName @ '' '' @ fst entry"
  let ?st1 = "ignore specieName F (store specieName ?setName ?calcSet (snd ?checked))"
  have st1: "ignored (statsIgnore ?st1) specieName F \<and> calcSets ?st1 specieName \<noteq> None"
    by (simp add: ignored_ignore calcSets_ignore calcSets_store)
  show ?thesis
  proof (cases copy)
    case None
    with run pset0 ok copy have "st' = ?st1" by (simp add: importDexSet_def Let_def)
    with st1 X None show ?thesis by simp
  next
    case (Some copyTo)
    with run pset0 ok copy
    have st': "st' = fold (copyDex lib gen F ?setName ?calcSet) copyTo ?st1"
      by (simp add: importDexSet_def Let_def)
    from X Some have "X = specieName \<or> X \<in> set copyTo" by simp
    with st1 have "(X \<in> set copyTo \<or> ignored (statsIgnore ?st1) X F)
                   \<and> (calcSets ?st1 X \<noteq> None \<or> X \<in> set copyTo)"
      by blast
    then show ?thesis
      unfolding st' by (simp add: ignored_copyDex_loop calcSets_copyDex_loop_stored)
  qed
qed

text \<open>
  The sets that the first pass has stored for an identity, and the coverage it has noted,
  at the end of the pass, seen from a point of it.
\<close>

lemma first_pass_keeps:
  assumes "ignored (statsIgnore st1) X F"
    and "fold_err (importDexSet lib gen specieName F format formatName specie) sets st1 = Inr st2"
    and "fold_err (importDexFormat lib gen specieName) formats st2 = Inr st3"
    and "importDexSets lib gen rest st3 = Inr st4"
  shows "ignored (statsIgnore st4) X F"
proof -
  from assms(2,1) have "ignored (statsIgnore st2) X F" by (rule importDexSet_loop_keeps)
  with assms(3) have "ignored (statsIgnore st3) X F" by (rule importDexFormat_loop_keeps)
  with assms(4) show ?thesis by (rule importDexSets_keeps)
qed

lemma importGen_second_pass:
  assumes "importDexSets lib gen dexSets
             \<lparr>calcSets = Map.empty, statsIgnore = Map.empty, formatIDs = [],
              VALIDATORS = validators\<rparr> = Inr st1"
    and "importGen lib gen dexSets fetchStats validators = Inr (out, validators')"
  shows "\<exists>st2. fold_err (importStats lib gen fetchStats) (formatIDs st1) st1 = Inr st2
               \<and> out = calcSets st2"
  using assms by (auto simp: importGen_def split: sum.splits)

text \<open>
  For the whole import: an identity that the first pass has covered in every format it
  has met comes out of \<^verbatim>\<open>importGen\<close> with exactly the sets the first pass has stored for it.
\<close>

lemma importGen_covered:
  assumes first: "importDexSets lib gen dexSets
                    \<lparr>calcSets = Map.empty, statsIgnore = Map.empty, formatIDs = [],
                     VALIDATORS = validators\<rparr> = Inr st1"
    and cov: "\<forall>F \<in> set (formatIDs st1). ignored (statsIgnore st1) X F"
    and run: "importGen lib gen dexSets fetchStats validators = Inr (out, validators')"
  shows "out X = calcSets st1 X"
proof -
  from importGen_second_pass [OF first run] obtain st2 where
    second: "fold_err (importStats lib gen fetchStats) (formatIDs st1) st1 = Inr st2"
    and out: "out = calcSets st2"
    by blast
  let ?P = "\<lambda>s. calcSets s X = calcSets st1 X \<and> statsIgnore s = statsIgnore st1"
  have "?P st2"
  proof (rule fold_err_invariant_in [OF second, where P = ?P])
    show "?P st1" by simp
  next
    fix F s s'
    assume F: "F \<in> set (formatIDs st1)" and s: "?P s"
      and step: "importStats lib gen fetchStats F s = Inr s'"
    from cov F s have "ignored (statsIgnore s) X F" by simp
    from importStats_frame [OF this step] s show "?P s'" by simp
  qed
  with out show ?thesis by simp
qed

text \<open>
  C1. Take a point of the first pass at which a curated set of the format \<open>F\<close> is
  accepted and stored, and let \<open>X\<close> be its species or a forme that gets a copy of it. Let
  the first pass go on to its end: the other sets of that species and format, its other
  formats, the other species. Then, in the state \<open>st4\<close> at the end of the first pass, \<open>X\<close>
  is covered for \<open>F\<close>, and the second pass keeps the coverage as it is. In every state of
  the second pass, a bucket of \<open>X\<close> in the statistics of \<open>F\<close> is skipped, whatever its
  weighted usage and the threshold: the state is unchanged, nothing is built, validated
  or stored; and \<open>X\<close> gets no copy as a forme of another species of \<open>F\<close>. The whole page of
  \<open>F\<close> leaves the sets of \<open>X\<close> as it finds them. And in the map that \<^verbatim>\<open>importGen\<close> returns,
  a set of \<open>X\<close> that the first pass has not stored is there under the usage name of a
  format other than \<open>F\<close> in which \<open>X\<close> is not covered; so, when no other format of the
  import has the usage name of \<open>F\<close>, what the map holds for \<open>X\<close> under that name is what the
  first pass has left there.
\<close>

theorem coverage_suppression:
  assumes step: "importDexSet lib gen specieName F format formatName specie entry st0 = Inr st1"
    and pset0: "dexToPset gen specie (snd entry) = Inr pset0"
    and ok: "accepted (fst (validated lib format pset0 st0))"
    and copy: "similarFormes lib (pset_out (fst (validated lib format pset0 st0))) format specie
                 (getItem lib gen (item (pset_out (fst (validated lib format pset0 st0)))))
               = Inr copy"
    and X: "X = specieName \<or> (\<exists>copyTo. copy = Some copyTo \<and> X \<in> set copyTo)"
    and sets: "fold_err (importDexSet lib gen specieName F format formatName specie) sets st1
               = Inr st2"
    and formats: "fold_err (importDexFormat lib gen specieName) formats st2 = Inr st3"
    and species: "importDexSets lib gen rest st3 = Inr st4"
    and first: "importDexSets lib gen dexSets
                  \<lparr>calcSets = Map.empty, statsIgnore = Map.empty, formatIDs = [],
                   VALIDATORS = validators\<rparr> = Inr st4"
    and run: "importGen lib gen dexSets fetchStats validators = Inr (out, validators')"
  shows "ignored (statsIgnore st4) X F
     \<and> (\<forall>fids s. fold_err (importStats lib gen fetchStats) fids st4 = Inr s
           \<longrightarrow> statsIgnore s = statsIgnore st4)
     \<and> (\<forall>s format' formatName' threshold uset.
           statsIgnore s = statsIgnore st4
           \<longrightarrow> importUsage lib gen F format' formatName' threshold (X, uset) s = Inr s)
     \<and> (\<forall>s setName calcSet item0.
           statsIgnore s = statsIgnore st4
           \<longrightarrow> copyUsage lib gen F setName calcSet item0 X s = Inr s)
     \<and> (\<forall>s s'. statsIgnore s = statsIgnore st4
           \<longrightarrow> importStats lib gen fetchStats F s = Inr s'
           \<longrightarrow> calcSets s' X = calcSets s X)
     \<and> (\<forall>L. calcSet_at out X L \<noteq> calcSet_at (calcSets st4) X L
           \<longrightarrow> (\<exists>F' \<in> set (formatIDs st4).
                  F' \<noteq> F \<and> \<not> ignored (statsIgnore st4) X F' \<and> L = usageName lib F'))
     \<and> ((\<forall>F' \<in> set (formatIDs st4). F' \<noteq> F \<longrightarrow> usageName lib F' \<noteq> usageName lib F)
           \<longrightarrow> calcSet_at out X (usageName lib F)
               = calcSet_at (calcSets st4) X (usageName lib F))"
proof -
  from importDexSet_accepted [OF step pset0 ok copy X]
  have "ignored (statsIgnore st1) X F" by simp
  from first_pass_keeps [OF this sets formats species]
  have cov: "ignored (statsIgnore st4) X F" .
  have keeps: "statsIgnore s = statsIgnore st4"
    if "fold_err (importStats lib gen fetchStats) fids st4 = Inr s" for fids s
    using that by (rule importStats_loop_keeps)
  have bucket: "importUsage lib gen F format' formatName' threshold (X, uset) s = Inr s"
    if "statsIgnore s = statsIgnore st4" for s format' formatName' threshold uset
    using that cov by (simp add: importUsage_skips)
  have forme: "copyUsage lib gen F setName calcSet item0 X s = Inr s"
    if "statsIgnore s = statsIgnore st4" for s setName calcSet item0
    using that cov by (simp add: copyUsage_skips)
  have page: "calcSets s' X = calcSets s X"
    if "statsIgnore s = statsIgnore st4" "importStats lib gen fetchStats F s = Inr s'" for s s'
  proof -
    from that(1) cov have "ignored (statsIgnore s) X F" by simp
    from importStats_frame [OF this that(2)] show ?thesis by simp
  qed
  have returned: "\<exists>F' \<in> set (formatIDs st4).
                    F' \<noteq> F \<and> \<not> ignored (statsIgnore st4) X F' \<and> L = usageName lib F'"
    if "calcSet_at out X L \<noteq> calcSet_at (calcSets st4) X L" for L
  proof -
    from importGen_second_pass [OF first run] obtain st5 where
      second: "fold_err (importStats lib gen fetchStats) (formatIDs st4) st4 = Inr st5"
      and out: "out = calcSets st5"
      by blast
    from that out have "calcSet_at (calcSets st5) X L \<noteq> calcSet_at (calcSets st4) X L" by simp
    from importStats_loop_writes [OF second this] obtain F' where
      F': "F' \<in> set (formatIDs st4)" "\<not> ignored (statsIgnore st4) X F'" "L = usageName lib F'"
      by blast
    from F'(2) cov have "F' \<noteq> F" by auto
    with F' show ?thesis by blast
  qed
  have own: "calcSet_at out X (usageName lib F) = calcSet_at (calcSets st4) X (usageName lib F)"
    if "\<forall>F' \<in> set (formatIDs st4). F' \<noteq> F \<longrightarrow> usageName lib F' \<noteq> usageName lib F"
  proof (rule ccontr)
    assume "calcSet_at out X (usageName lib F) \<noteq> calcSet_at (calcSets st4) X (usageName lib F)"
    from returned [OF this] obtain F' where
      F': "F' \<in> set (formatIDs st4)" "F' \<noteq> F" "usageName lib F = usageName lib F'"
      by auto
    from that F'(1) have "F' \<noteq> F \<longrightarrow> usageName lib F' \<noteq> usageName lib F" by (rule bspec)
    with F'(2,3) show False by simp
  qed
  have c2: "\<forall>fids s. fold_err (importStats lib gen fetchStats) fids st4 = Inr s
              \<longrightarrow> statsIgnore s = statsIgnore st4"
    using keeps by blast
  have c3: "\<forall>s format' formatName' threshold uset.
              statsIgnore s = statsIgnore st4
              \<longrightarrow> importUsage lib gen F format' formatName' threshold (X, uset) s = Inr s"
    using bucket by blast
  have c4: "\<forall>s setName calcSet item0.
              statsIgnore s = statsIgnore st4
              \<longrightarrow> copyUsage lib gen F setName calcSet item0 X s = Inr s"
    using forme by blast
  have c5: "\<forall>s s'. statsIgnore s = statsIgnore st4
              \<longrightarrow> importStats lib gen fetchStats F s = Inr s'
              \<longrightarrow> calcSets s' X = calcSets s X"
    using page by blast
  have c6: "\<forall>L. calcSet_at out X L \<noteq> calcSet_at (calcSets st4) X L
              \<longrightarrow> (\<exists>F' \<in> set (formatIDs st4).
                     F' \<noteq> F \<and> \<not> ignored (statsIgnore st4) X F' \<and> L = usageName lib F')"
    using returned by blast
  have c7: "(\<forall>F' \<in> set (formatIDs st4). F' \<noteq> F \<longrightarrow> usageName lib F' \<noteq> usageName lib F)
              \<longrightarrow> calcSet_at out X (usageName lib F)
                  = calcSet_at (calcSets st4) X (usageName lib F)"
    using own by blast
  from cov c2 c3 c4 c5 c6 c7 show ?thesis by (intro conjI)
qed

lemma fromSpread_example:
  "Number lib = example_Number \<Longrightarrow>
   fromSpread lib ''Adamant:252/252/0/0/4/0'' =
     Inr (''Adamant'', \<lparr>hp = Some 252, atk = Some 252, def = None, spa = None, spd = Some 4,
                        spe = None\<rparr>)"
  by (simp add: fromSpread_def spread_step_def example_Number_def is_digit_def
        nat_of_digits_def digit_val_def stat_ids_def no_stats_def enumerate_eq_zip)

lemmas example_world =
  example_lib_def example_gen_def example_species_def example_dset_def example_start_def
  example_entered_def example_covered_def example_stats_def example_uset_def getFormat_def
  UNSUPPORTED_def getItem_def getSpecie_def Let_def

lemmas first_pass_steps =
  importDexSet_def dexToPset_def hiddenPower_def validated_def validatePSet_def
  getValidator_def validateWith_def rename_crowned_def crowned_def psetToCalcSet_def
  untagged_def indexOf_def slice_from_def similarFormes_def toMegaRayquaza_def toRayquaza_def
  megaForme_def formeTable_def fillStats_def store_def ignore_def copyDex_def

lemmas second_pass_steps =
  importStats_def importUsage_def usageToPset_def top_weighted_def not_max_def weight_less_def
  weight_of_def fromSpread_example sort_desc_def keys_of_def nothing_to_empty_def getLevel_def
  copyUsage_def ignored_def getUsageThreshold_def lower_quality_def truthy_def

lemma example_dexToPset:
  "dexToPset example_gen (getSpecie example_lib example_gen ''Aegislash-Blade'') example_dset
   = Inr \<lparr>name = [], species = ''Aegislash-Blade'', item = ''Leftovers'',
          ability = ''Stance Change'', moves = [Some ''Iron Head'', Some ''Shadow Sneak''],
          nature = ''Adamant'', gender = [],
          evs = \<lparr>hp = 252, atk = 252, def = 0, spa = 0, spd = 4, spe = 0\<rparr>,
          ivs = fillStats None 31, level = 100, teraType = None, hpType = None,
          shiny = None\<rparr>"
  by (simp add: example_world first_pass_steps)

lemma example_first_pass:
  "importDexSet example_lib example_gen ''Aegislash-Blade'' ''gen7ou''
     (fst (getFormat example_lib ''gen7ou'')) (snd (getFormat example_lib ''gen7ou''))
     (getSpecie example_lib example_gen ''Aegislash-Blade'') (''Swords Dance'', example_dset)
     example_entered = Inr example_covered"
  by (simp add: example_world first_pass_steps)

lemma example_whole_first_pass:
  "importDexSets example_lib example_gen example_dexSets
     \<lparr>calcSets = Map.empty, statsIgnore = Map.empty, formatIDs = [], VALIDATORS = Map.empty\<rparr>
   = Inr example_covered"
proof -
  have F: "''gen'' @ string_of_nat (num example_gen) @ ''ou'' = ''gen7ou''"
    by (simp add: example_gen_def string_of_nat.simps [of 7])
  have "importDexFormat example_lib example_gen ''Aegislash-Blade''
          (''ou'', [(''Swords Dance'', example_dset)]) example_start = Inr example_covered"
    unfolding importDexFormat_def Let_def fst_conv snd_conv F
    using example_first_pass
    by (simp add: example_lib_def example_entered_def example_start_def getFormat_def
          UNSUPPORTED_def)
  then show ?thesis
    by (simp add: importDexSets_def example_dexSets_def example_start_def)
qed

lemma example_second_pass:
  "\<exists>st. importStats example_lib example_gen example_stats ''gen7ou'' example_covered = Inr st
        \<and> calcSet_at (calcSets st) ''Aegislash'' ''ou Showdown Usage'' \<noteq> None
        \<and> calcSet_at (calcSets st) ''Aegislash-Shield'' ''ou Showdown Usage'' \<noteq> None
        \<and> calcSet_at (calcSets st) ''Aegislash-Blade'' ''ou Swords Dance'' \<noteq> None"
  by (simp add: example_world first_pass_steps second_pass_steps calcSet_at_def)

lemma example_import:
  "\<exists>out validators'.
     importGen example_lib example_gen example_dexSets example_stats Map.empty
       = Inr (out, validators')
     \<and> calcSet_at out ''Aegislash'' ''ou Showdown Usage'' \<noteq> None
     \<and> calcSet_at out ''Aegislash-Shield'' ''ou Showdown Usage'' \<noteq> None
     \<and> calcSet_at out ''Aegislash-Blade'' ''ou Swords Dance'' \<noteq> None"
proof -
  from example_second_pass obtain st where
    st: "importStats example_lib example_gen example_stats ''gen7ou'' example_covered = Inr st"
    and sets: "calcSet_at (calcSets st) ''Aegislash'' ''ou Showdown Usage'' \<noteq> None"
      "calcSet_at (calcSets st) ''Aegislash-Shield'' ''ou Showdown Usage'' \<noteq> None"
      "calcSet_at (calcSets st) ''Aegislash-Blade'' ''ou Swords Dance'' \<noteq> None"
    by blast
  have ids: "formatIDs example_covered = [''gen7ou'']" by (simp add: example_covered_def)
  have "importGen example_lib example_gen example_dexSets example_stats Map.empty
          = Inr (calcSets st, VALIDATORS st)"
    by (simp add: importGen_def example_whole_first_pass ids st)
  with sets show ?thesis by blast
qed

theorem coverage_suppression_witness:
  "importDexSet example_lib example_gen ''Aegislash-Blade'' ''gen7ou''
     (fst (getFormat example_lib ''gen7ou'')) (snd (getFormat example_lib ''gen7ou''))
     (getSpecie example_lib example_gen ''Aegislash-Blade'') (''Swords Dance'', example_dset)
     example_entered = Inr example_covered
   \<and> ignored (statsIgnore example_covered) ''Aegislash-Blade'' ''gen7ou''
   \<and> usage_weighted example_uset = 1 / 2
   \<and> importUsage example_lib example_gen ''gen7ou''
       (fst (getFormat example_lib ''gen7ou'')) (snd (getFormat example_lib ''gen7ou''))
       (Finite (1 / 100)) (''Aegislash-Blade'', example_uset) example_covered
     = Inr example_covered
   \<and> usageName example_lib ''gen7ou'' = ''ou Showdown Usage''
   \<and> (\<exists>out validators'.
        importGen example_lib example_gen example_dexSets example_stats Map.empty
          = Inr (out, validators')
        \<and> calcSet_at out ''Aegislash'' ''ou Showdown Usage'' \<noteq> None
        \<and> calcSet_at out ''Aegislash-Shield'' ''ou Showdown Usage'' \<noteq> None
        \<and> calcSet_at out ''Aegislash-Blade'' ''ou Swords Dance'' \<noteq> None
        \<and> calcSet_at out ''Aegislash-Blade'' ''ou Showdown Usage'' = None)"
proof -
  let ?format = "fst (getFormat example_lib ''gen7ou'')"
  let ?pset0 = "\<lparr>name = [], species = ''Aegislash-Blade'', item = ''Leftovers'',
                  ability = ''Stance Change'',
                  moves = [Some ''Iron Head'', Some ''Shadow Sneak''],
                  nature = ''Adamant'', gender = [],
                  evs = \<lparr>hp = 252, atk = 252, def = 0, spa = 0, spd = 4, spe = 0\<rparr>,
                  ivs = fillStats None 31, level = 100, teraType = None, hpType = None,
                  shiny = None\<rparr>"
  have pset0: "dexToPset example_gen (getSpecie example_lib example_gen ''Aegislash-Blade'')
                 (snd (''Swords Dance'', example_dset)) = Inr ?pset0"
    using example_dexToPset by simp
  have ok: "accepted (fst (validated example_lib ?format ?pset0 example_entered))"
    by (simp add: example_world first_pass_steps)
  have copy: "similarFormes example_lib
                (pset_out (fst (validated example_lib ?format ?pset0 example_entered))) ?format
                (getSpecie example_lib example_gen ''Aegislash-Blade'')
                (getItem example_lib example_gen
                   (item (pset_out (fst (validated example_lib ?format ?pset0 example_entered)))))
              = Inr None"
    by (simp add: example_world first_pass_steps)
  have X: "''Aegislash-Blade'' = ''Aegislash-Blade''
           \<or> (\<exists>copyTo. None = Some copyTo \<and> ''Aegislash-Blade'' \<in> set copyTo)"
    by simp
  have rest1:
    "fold_err (importDexSet example_lib example_gen ''Aegislash-Blade'' ''gen7ou''
        ?format (snd (getFormat example_lib ''gen7ou''))
        (getSpecie example_lib example_gen ''Aegislash-Blade'')) [] example_covered
      = Inr example_covered"
    by simp
  have rest2:
    "fold_err (importDexFormat example_lib example_gen ''Aegislash-Blade'') [] example_covered
      = Inr example_covered"
    by simp
  have rest3: "importDexSets example_lib example_gen [] example_covered = Inr example_covered"
    by (simp add: importDexSets_def)
  have weight: "usage_weighted example_uset = 1 / 2" by (simp add: example_uset_def)
  have usage: "usageName example_lib ''gen7ou'' = ''ou Showdown Usage''"
    by (simp add: usageName_def example_world untagged_def indexOf_def slice_from_def)
  have ids: "formatIDs example_covered = [''gen7ou'']" by (simp add: example_covered_def)
  have before: "calcSet_at (calcSets example_covered) ''Aegislash-Blade'' ''ou Showdown Usage''
                = None"
    by (simp add: example_covered_def calcSet_at_def)
  from example_import obtain out validators' where
    run: "importGen example_lib example_gen example_dexSets example_stats Map.empty
            = Inr (out, validators')"
    and sets: "calcSet_at out ''Aegislash'' ''ou Showdown Usage'' \<noteq> None"
      "calcSet_at out ''Aegislash-Shield'' ''ou Showdown Usage'' \<noteq> None"
      "calcSet_at out ''Aegislash-Blade'' ''ou Swords Dance'' \<noteq> None"
    by blast
  note all = coverage_suppression [OF example_first_pass pset0 ok copy X rest1 rest2 rest3
      example_whole_first_pass run]
  from all have cov: "ignored (statsIgnore example_covered) ''Aegislash-Blade'' ''gen7ou''"
    by (elim conjE)
  from all
  have "\<forall>s format' formatName' threshold uset.
          statsIgnore s = statsIgnore example_covered
          \<longrightarrow> importUsage example_lib example_gen ''gen7ou'' format' formatName' threshold
                (''Aegislash-Blade'', uset) s = Inr s"
    by (elim conjE)
  then have bucket: "importUsage example_lib example_gen ''gen7ou''
       ?format (snd (getFormat example_lib ''gen7ou''))
       (Finite (1 / 100)) (''Aegislash-Blade'', example_uset) example_covered
     = Inr example_covered"
    by blast
  from all
  have "(\<forall>F' \<in> set (formatIDs example_covered).
           F' \<noteq> ''gen7ou'' \<longrightarrow> usageName example_lib F' \<noteq> usageName example_lib ''gen7ou'')
        \<longrightarrow> calcSet_at out ''Aegislash-Blade'' (usageName example_lib ''gen7ou'')
            = calcSet_at (calcSets example_covered) ''Aegislash-Blade''
                (usageName example_lib ''gen7ou'')"
    by (elim conjE)
  with ids usage before
  have none: "calcSet_at out ''Aegislash-Blade'' ''ou Showdown Usage'' = None"
    by simp
  from example_first_pass cov weight bucket usage run sets none show ?thesis by blast
qed

subsection \<open>The item in the second pass\<close>









lemma copyUsage_absent_item:
  "\<not> ignored (statsIgnore st) forme F \<Longrightarrow>
   copyUsage lib gen F setName calcSet None forme st = Inl (TypeError ''item.megaEvolves'')"
  by (simp add: copyUsage_def)







text \<open>
  Without an answer of the second lookup the read throws: in the world whose second lookup
  answers \<^verbatim>\<open>undefined\<close>, the bucket of Aegislash, which has no item, ends on the read of
  \<^verbatim>\<open>megaEvolves\<close>.
\<close>

lemma usage_item_absent:
  "getItem example_lib_no_item example_gen [] = None
   \<and> importUsage example_lib_no_item example_gen ''gen7ou''
       (fst (getFormat example_lib_no_item ''gen7ou''))
       (snd (getFormat example_lib_no_item ''gen7ou''))
       (Finite (1 / 100)) (''Aegislash'', example_uset) example_start
     = Inl (TypeError ''item.megaEvolves'')"
  by (simp add: example_lib_no_item_def example_world first_pass_steps second_pass_steps)



end
